theory Spec2Isabelle
  imports Complex_Main "HOL-Library.Monad_Syntax"
begin

section \<open>Hyperparameters of the notebook\<close>

text \<open>
  The constants of the cell "Hyperparameters" of \<^verbatim>\<open>main.ipynb\<close>, with the names
  the notebook gives them. \<^verbatim>\<open>decoder_units = int(32 * image_channel / 2)\<close> is a
  true division followed by truncation; on natural numbers that is \<open>div\<close>.
\<close>

definition image_size :: nat where
  "image_size = 28"

definition image_channel :: nat where
  "image_channel = 1"

definition image_size_flat :: nat where
  "image_size_flat = image_size * image_size * image_channel"

definition image_shape :: "nat list" where
  "image_shape = [image_size, image_size, image_channel]"

definition keep_prob :: real where
  "keep_prob = 0.8"

definition n_latent :: nat where
  "n_latent = 8"

definition decoder_units :: nat where
  "decoder_units = (32 * image_channel) div 2"

definition learning_rate :: real where
  "learning_rate = 1 / 1000"

definition batch_size :: nat where
  "batch_size = 24"

definition iterations :: nat where
  "iterations = 10000"

definition log_step :: nat where
  "log_step = 100"

definition viz_step :: nat where
  "viz_step = 500"

section \<open>Tensors and the library operations the notebook calls\<close>

text \<open>
  A tensor is its shape and its entries in row-major order, as the library stores it.
  Entries are real numbers: the development is about the exact-arithmetic reading of the
  formulas, not about float32 rounding. A tensor built by the library always has as many
  entries as its shape says; \<open>well_shaped\<close> states that of a value of the record type.

  A library call that raises (a shape error when the graph is built or run) is the value
  \<open>None\<close>.
\<close>

record tensor =
  shape :: "nat list"
  data :: "real list"

definition well_shaped :: "tensor \<Rightarrow> bool" where
  "well_shaped t = (length (data t) = prod_list (shape t))"

definition sum_range :: "nat \<Rightarrow> (nat \<Rightarrow> real) \<Rightarrow> real" where
  "sum_range n f = sum_list (map f [0..<n])"

text \<open>A tensor whose entries are given by their flat index.\<close>

definition tabulate :: "nat list \<Rightarrow> (nat \<Rightarrow> real) \<Rightarrow> tensor" where
  "tabulate sh f = \<lparr>shape = sh, data = map f [0..<prod_list sh]\<rparr>"

text \<open>The entry \<open>[i, j]\<close> of a tensor of rank 2.\<close>

definition at2 :: "tensor \<Rightarrow> nat \<Rightarrow> nat \<Rightarrow> real" where
  "at2 t i j = data t ! (i * (shape t ! 1) + j)"

subsection \<open>Reshaping\<close>

text \<open>
  \<^verbatim>\<open>tf.reshape(t, dims)\<close>: the entries stay in place. At most one dimension may be
  \<open>-1\<close>; it is inferred from the size of the tensor, which the product of the other
  dimensions must divide. Without a \<open>-1\<close> the product must be the size.
\<close>

definition tf_reshape :: "tensor \<Rightarrow> int list \<Rightarrow> tensor option" where
  "tf_reshape t dims =
     (let n = prod_list (shape t);
          known = prod_list (map nat (filter (\<lambda>d. d \<noteq> - 1) dims))
      in if list_ex (\<lambda>d. d < - 1) dims then None
         else if count_list dims (- 1) = 0 then
           (if known = n then Some \<lparr>shape = map nat dims, data = data t\<rparr> else None)
         else if count_list dims (- 1) = 1 then
           (if known \<noteq> 0 \<and> n mod known = 0
            then Some \<lparr>shape = map (\<lambda>d. if d = - 1 then n div known else nat d) dims,
                       data = data t\<rparr>
            else None)
         else None)"

text \<open>
  \<^verbatim>\<open>tf.contrib.layers.flatten\<close> keeps the first (batch) dimension and merges the
  others; it refuses a tensor of rank below 2.
\<close>

definition flatten :: "tensor \<Rightarrow> tensor option" where
  "flatten t =
     (case shape t of
        b # d # ds \<Rightarrow> Some \<lparr>shape = [b, prod_list (d # ds)], data = data t\<rparr>
      | _ \<Rightarrow> None)"

subsection \<open>Elementwise operations\<close>

definition tf_map :: "(real \<Rightarrow> real) \<Rightarrow> tensor \<Rightarrow> tensor" where
  "tf_map f t = \<lparr>shape = shape t, data = map f (data t)\<rparr>"

text \<open>A Python float combined with a tensor acts on every entry.\<close>

definition scalar_mul :: "real \<Rightarrow> tensor \<Rightarrow> tensor" where
  "scalar_mul c t = tf_map (\<lambda>x. c * x) t"

definition scalar_add :: "real \<Rightarrow> tensor \<Rightarrow> tensor" where
  "scalar_add c t = tf_map (\<lambda>x. c + x) t"

definition tf_exp :: "tensor \<Rightarrow> tensor" where
  "tf_exp t = tf_map exp t"

definition tf_square :: "tensor \<Rightarrow> tensor" where
  "tf_square t = tf_map (\<lambda>x. x * x) t"

text \<open>
  Binary operations broadcast: the two shapes are aligned at their last dimension, and
  two aligned dimensions must be equal unless one of them is 1, which is then repeated.
  \<open>bshape_rev\<close> works on the reversed shapes.
\<close>

fun bshape_rev :: "nat list \<Rightarrow> nat list \<Rightarrow> nat list option" where
  "bshape_rev [] ys = Some ys"
| "bshape_rev (x # xs) [] = Some (x # xs)"
| "bshape_rev (x # xs) (y # ys) =
     (if x = y \<or> x = 1 \<or> y = 1
      then map_option ((#) (if x = 1 then y else x)) (bshape_rev xs ys)
      else None)"

definition broadcast_shapes :: "nat list \<Rightarrow> nat list \<Rightarrow> nat list option" where
  "broadcast_shapes a b = map_option rev (bshape_rev (rev a) (rev b))"

text \<open>Row-major position of a multi-index, and the multi-index of a position.\<close>

fun ravel :: "nat list \<Rightarrow> nat list \<Rightarrow> nat" where
  "ravel (d # ds) (i # is) = i * prod_list ds + ravel ds is"
| "ravel _ _ = 0"

fun unravel :: "nat list \<Rightarrow> nat \<Rightarrow> nat list" where
  "unravel [] n = []"
| "unravel (d # ds) n = (n div prod_list ds) # unravel ds (n mod prod_list ds)"

text \<open>
  The entry of \<open>t\<close> that a position \<open>ix\<close> of the broadcast result reads: the last
  \<open>length (shape t)\<close> indices, with index 0 along a dimension of size 1.
\<close>

definition bcast_at :: "tensor \<Rightarrow> nat list \<Rightarrow> real" where
  "bcast_at t ix =
     data t ! ravel (shape t)
       (map2 (\<lambda>d i. if d = 1 then 0 else i) (shape t)
          (drop (length ix - length (shape t)) ix))"

definition tf_binop :: "(real \<Rightarrow> real \<Rightarrow> real) \<Rightarrow> tensor \<Rightarrow> tensor \<Rightarrow> tensor option" where
  "tf_binop f a b =
     (case broadcast_shapes (shape a) (shape b) of
        None \<Rightarrow> None
      | Some sh \<Rightarrow>
          Some (tabulate sh (\<lambda>n. f (bcast_at a (unravel sh n)) (bcast_at b (unravel sh n)))))"

definition tf_add :: "tensor \<Rightarrow> tensor \<Rightarrow> tensor option" where
  "tf_add = tf_binop (\<lambda>x y. x + y)"

definition tf_subtract :: "tensor \<Rightarrow> tensor \<Rightarrow> tensor option" where
  "tf_subtract = tf_binop (\<lambda>x y. x - y)"

definition tf_multiply :: "tensor \<Rightarrow> tensor \<Rightarrow> tensor option" where
  "tf_multiply = tf_binop (\<lambda>x y. x * y)"

definition tf_squared_difference :: "tensor \<Rightarrow> tensor \<Rightarrow> tensor option" where
  "tf_squared_difference = tf_binop (\<lambda>x y. (x - y) * (x - y))"

subsection \<open>Reductions\<close>

text \<open>
  \<^verbatim>\<open>tf.reduce_sum(t, axis=1)\<close> sums along the second dimension and removes it; a
  tensor of rank below 2 has no such axis.
\<close>

definition tf_reduce_sum_axis1 :: "tensor \<Rightarrow> tensor option" where
  "tf_reduce_sum_axis1 t =
     (case shape t of
        b # n # rest \<Rightarrow>
          (let m = prod_list rest
           in Some (tabulate (b # rest)
                (\<lambda>k. sum_range n (\<lambda>j. data t ! ((k div m) * n * m + j * m + k mod m)))))
      | _ \<Rightarrow> None)"

text \<open>
  \<^verbatim>\<open>tf.reduce_mean(t)\<close> averages all entries. The mean of no entries is not a number;
  it has no real value and is \<open>None\<close> here.
\<close>

definition tf_reduce_mean :: "tensor \<Rightarrow> real option" where
  "tf_reduce_mean t =
     (if data t = [] then None
      else Some (sum_list (data t) / real (length (data t))))"

subsection \<open>Random draws\<close>

text \<open>
  The library draws random numbers inside the graph. Here every draw is an explicit
  input: a function from the flat position of an entry to the value drawn there.
  \<^verbatim>\<open>tf.random_normal(sh)\<close> arranges such draws in the shape the code asks for.
  \<^verbatim>\<open>tf.nn.dropout(t, keep_prob)\<close> keeps an entry with probability \<open>keep_prob\<close> and
  divides it by \<open>keep_prob\<close>, and sets the other entries to 0; its draw says which
  positions are kept.
\<close>

definition tf_random_normal :: "(nat \<Rightarrow> real) \<Rightarrow> nat list \<Rightarrow> tensor" where
  "tf_random_normal draw sh = tabulate sh draw"

definition tf_nn_dropout :: "(nat \<Rightarrow> bool) \<Rightarrow> tensor \<Rightarrow> real \<Rightarrow> tensor" where
  "tf_nn_dropout keep t kp =
     \<lparr>shape = shape t,
      data = map (\<lambda>n. if keep n then data t ! n / kp else 0) [0..<length (data t)]\<rparr>"

subsection \<open>Layers\<close>

text \<open>
  The library creates the variables of a layer when the layer is built, in the sizes
  the input calls for. A layer's variables are modelled as functions of the indices, so
  that one value of the record serves every size.

  \<^verbatim>\<open>tf.layers.dense\<close> acts on the last dimension of a tensor of rank at least 2:
  \<open>out[r, u] = activation (bias[u] + \<Sum>i. in[r, i] * kernel[i, u])\<close>.
\<close>

record dense_vars =
  dense_kernel :: "nat \<Rightarrow> nat \<Rightarrow> real"
  dense_bias :: "nat \<Rightarrow> real"

definition tf_layers_dense ::
  "dense_vars \<Rightarrow> tensor \<Rightarrow> nat \<Rightarrow> (real \<Rightarrow> real) \<Rightarrow> tensor option" where
  "tf_layers_dense v t units activation =
     (if length (shape t) < 2 then None
      else
        (let n = last (shape t); sh = butlast (shape t) @ [units]
         in Some (tabulate sh
              (\<lambda>k. activation (dense_bias v (k mod units) +
                 sum_range n (\<lambda>i. data t ! ((k div units) * n + i)
                                   * dense_kernel v i (k mod units)))))))"

text \<open>
  Convolutions take a batch of images \<open>[B, H, W, C]\<close>. With \<^verbatim>\<open>padding='SAME'\<close> the
  output of \<^verbatim>\<open>tf.layers.conv2d\<close> has \<open>\<lceil>H / strides\<rceil>\<close> rows, and the input is
  padded with zeros, one half of the padding (rounded down) before the first row.
\<close>

record conv_vars =
  conv_kernel :: "nat \<Rightarrow> nat \<Rightarrow> nat \<Rightarrow> nat \<Rightarrow> real"
  conv_bias :: "nat \<Rightarrow> real"

definition same_out :: "nat \<Rightarrow> nat \<Rightarrow> nat" where
  "same_out n s = (n + s - 1) div s"

definition same_pad :: "nat \<Rightarrow> nat \<Rightarrow> nat \<Rightarrow> nat" where
  "same_pad n k s = (((same_out n s - 1) * s + k) - n) div 2"

definition at4 :: "tensor \<Rightarrow> nat \<Rightarrow> nat \<Rightarrow> nat \<Rightarrow> nat \<Rightarrow> real" where
  "at4 t b i j c =
     (case shape t of
        [B, H, W, C] \<Rightarrow> data t ! (((b * H + i) * W + j) * C + c)
      | _ \<Rightarrow> 0)"

definition tf_layers_conv2d ::
  "conv_vars \<Rightarrow> tensor \<Rightarrow> nat \<Rightarrow> nat \<Rightarrow> nat \<Rightarrow> (real \<Rightarrow> real) \<Rightarrow> tensor option" where
  "tf_layers_conv2d v t filters kernel_size strides activation =
     (case shape t of
        [B, H, W, C] \<Rightarrow>
          (if strides = 0 then None
           else
             (let OH = same_out H strides; OW = same_out W strides;
                  pt = same_pad H kernel_size strides;
                  pl = same_pad W kernel_size strides
              in Some (tabulate [B, OH, OW, filters]
                   (\<lambda>n. let f = n mod filters;
                            j = (n div filters) mod OW;
                            i = (n div (filters * OW)) mod OH;
                            b = n div (filters * OW * OH)
                        in activation (conv_bias v f +
                             sum_range kernel_size (\<lambda>di.
                               sum_range kernel_size (\<lambda>dj.
                                 sum_range C (\<lambda>c.
                                   (let r = i * strides + di; q = j * strides + dj
                                    in if pt \<le> r \<and> r - pt < H \<and> pl \<le> q \<and> q - pl < W
                                       then at4 t b (r - pt) (q - pl) c
                                            * conv_kernel v di dj c f
                                       else 0)))))))))
      | _ \<Rightarrow> None)"

text \<open>
  \<^verbatim>\<open>tf.layers.conv2d_transpose\<close> with \<^verbatim>\<open>padding='SAME'\<close> is the transpose of the
  convolution above from an image of \<open>H * strides\<close> rows to one of \<open>H\<close> rows: the
  output entry at row \<open>y\<close> collects the input rows \<open>i\<close> with
  \<open>i * strides + di - pad = y\<close>.
\<close>

definition tf_layers_conv2d_transpose ::
  "conv_vars \<Rightarrow> tensor \<Rightarrow> nat \<Rightarrow> nat \<Rightarrow> nat \<Rightarrow> (real \<Rightarrow> real) \<Rightarrow> tensor option" where
  "tf_layers_conv2d_transpose v t filters kernel_size strides activation =
     (case shape t of
        [B, H, W, C] \<Rightarrow>
          (if strides = 0 then None
           else
             (let OH = H * strides; OW = W * strides;
                  pt = same_pad OH kernel_size strides;
                  pl = same_pad OW kernel_size strides
              in Some (tabulate [B, OH, OW, filters]
                   (\<lambda>n. let f = n mod filters;
                            x = (n div filters) mod OW;
                            y = (n div (filters * OW)) mod OH;
                            b = n div (filters * OW * OH)
                        in activation (conv_bias v f +
                             sum_range kernel_size (\<lambda>di.
                               sum_range kernel_size (\<lambda>dj.
                                 sum_range C (\<lambda>c.
                                   (let r = y + pt; q = x + pl
                                    in if di \<le> r \<and> (r - di) mod strides = 0
                                          \<and> (r - di) div strides < H
                                          \<and> dj \<le> q \<and> (q - dj) mod strides = 0
                                          \<and> (q - dj) div strides < W
                                       then at4 t b ((r - di) div strides)
                                              ((q - dj) div strides) c
                                            * conv_kernel v di dj f c
                                       else 0)))))))))
      | _ \<Rightarrow> None)"

text \<open>The activations the notebook passes to the layers, on one entry.\<close>

definition tf_nn_relu :: "real \<Rightarrow> real" where
  "tf_nn_relu x = max x 0"

definition tf_nn_sigmoid :: "real \<Rightarrow> real" where
  "tf_nn_sigmoid x = 1 / (1 + exp (- x))"

section \<open>The notebook's helpers\<close>

text \<open>
  The cell "Helpers". \<^verbatim>\<open>leakyReLU(X, alpha=0.3)\<close> is
  \<^verbatim>\<open>tf.maximum(X, tf.multiply(X, alpha))\<close>, entry by entry. \<^verbatim>\<open>conv2d\<close> and
  \<^verbatim>\<open>conv2d_transpose\<close> call the library layer and then, when \<^verbatim>\<open>dropout\<close> is
  set, \<^verbatim>\<open>tf.nn.dropout\<close> with the global \<^verbatim>\<open>keep_prob\<close>. The defaults
  \<^verbatim>\<open>filters=64, kernel_size=4, strides=2, activation=tf.nn.relu\<close> are written out
  at each call below.
\<close>

definition leakyReLU :: "real \<Rightarrow> real \<Rightarrow> real" where
  "leakyReLU x alpha = max x (x * alpha)"

definition conv2d ::
  "conv_vars \<Rightarrow> (nat \<Rightarrow> bool) \<Rightarrow> tensor \<Rightarrow> nat \<Rightarrow> nat \<Rightarrow> nat \<Rightarrow> (real \<Rightarrow> real) \<Rightarrow> bool
     \<Rightarrow> tensor option" where
  "conv2d v keep X filters kernel_size strides activation dropout =
     do {
       layer \<leftarrow> tf_layers_conv2d v X filters kernel_size strides activation;
       Some (if dropout then tf_nn_dropout keep layer keep_prob else layer)
     }"

definition conv2d_transpose ::
  "conv_vars \<Rightarrow> (nat \<Rightarrow> bool) \<Rightarrow> tensor \<Rightarrow> nat \<Rightarrow> nat \<Rightarrow> nat \<Rightarrow> (real \<Rightarrow> real) \<Rightarrow> bool
     \<Rightarrow> tensor option" where
  "conv2d_transpose v keep X filters kernel_size strides activation dropout =
     do {
       layer \<leftarrow> tf_layers_conv2d_transpose v X filters kernel_size strides activation;
       Some (if dropout then tf_nn_dropout keep layer keep_prob else layer)
     }"

definition dense :: "dense_vars \<Rightarrow> tensor \<Rightarrow> nat \<Rightarrow> (real \<Rightarrow> real) \<Rightarrow> tensor option" where
  "dense v X units activation = tf_layers_dense v X units activation"

section \<open>The encoder\<close>

text \<open>
  The variables of the encoder's five layers, in the order the code creates them, and
  the random draws of one forward pass: the three dropout draws and the noise.
\<close>

record encoder_vars =
  enc_conv_1 :: conv_vars
  enc_conv_2 :: conv_vars
  enc_conv_3 :: conv_vars
  enc_dense_mean :: dense_vars
  enc_dense_stddev :: dense_vars

record encoder_draws =
  enc_keep_1 :: "nat \<Rightarrow> bool"
  enc_keep_2 :: "nat \<Rightarrow> bool"
  enc_keep_3 :: "nat \<Rightarrow> bool"
  enc_noise :: "nat \<Rightarrow> real"

text \<open>
  The first five statements of \<^verbatim>\<open>encoder\<close>: the reshape to images, the three
  convolutions and the flatten. They are a definition of their own so that the input of
  the two linear projections has a name.
\<close>

definition encoder_features :: "encoder_vars \<Rightarrow> encoder_draws \<Rightarrow> tensor \<Rightarrow> tensor option" where
  "encoder_features p r X =
     do {
       X \<leftarrow> tf_reshape X [- 1, int image_size, int image_size, int image_channel];
       X \<leftarrow> conv2d (enc_conv_1 p) (enc_keep_1 r) X 64 4 2 (\<lambda>x. leakyReLU x 0.3) True;
       X \<leftarrow> conv2d (enc_conv_2 p) (enc_keep_2 r) X 64 4 2 (\<lambda>x. leakyReLU x 0.3) True;
       X \<leftarrow> conv2d (enc_conv_3 p) (enc_keep_3 r) X 64 4 1 (\<lambda>x. leakyReLU x 0.3) True;
       flatten X
     }"

text \<open>
  The rest of \<^verbatim>\<open>encoder\<close>. The tensor the code calls \<^verbatim>\<open>stddev\<close> is 0.5 times the
  output of its linear projection; the code returns \<^verbatim>\<open>z, mean, stddev\<close>.
\<close>

definition encoder ::
  "encoder_vars \<Rightarrow> encoder_draws \<Rightarrow> tensor \<Rightarrow> (tensor \<times> tensor \<times> tensor) option" where
  "encoder p r X =
     do {
       X \<leftarrow> encoder_features p r X;
       mean \<leftarrow> tf_layers_dense (enc_dense_mean p) X n_latent (\<lambda>x. x);
       proj \<leftarrow> tf_layers_dense (enc_dense_stddev p) X n_latent (\<lambda>x. x);
       let stddev = scalar_mul 0.5 proj;
       let noise = tf_random_normal (enc_noise r) [shape X ! 0, n_latent];
       scaled \<leftarrow> tf_multiply noise (tf_exp stddev);
       z \<leftarrow> tf_add mean scaled;
       Some (z, mean, stddev)
     }"

section \<open>The decoder\<close>

record decoder_vars =
  dec_dense_1 :: dense_vars
  dec_dense_2 :: dense_vars
  dec_conv_1 :: conv_vars
  dec_conv_2 :: conv_vars
  dec_conv_3 :: conv_vars
  dec_dense_3 :: dense_vars

record decoder_draws =
  dec_keep_1 :: "nat \<Rightarrow> bool"
  dec_keep_2 :: "nat \<Rightarrow> bool"

text \<open>
  \<^verbatim>\<open>decoder\<close>, statement by statement. The second statement rebinds \<^verbatim>\<open>X\<close> to a
  dense layer of \<^verbatim>\<open>z\<close>, as the code does. \<^verbatim>\<open>X.get_shape()[1].value // 2\<close> reads
  the second dimension of that layer's output. The last convolution is called with
  \<^verbatim>\<open>dropout=False\<close> and so has no draw.
\<close>

definition decoder :: "decoder_vars \<Rightarrow> decoder_draws \<Rightarrow> tensor \<Rightarrow> tensor option" where
  "decoder p r z =
     do {
       X \<leftarrow> dense (dec_dense_1 p) z decoder_units (\<lambda>x. leakyReLU x 0.3);
       X \<leftarrow> dense (dec_dense_2 p) z (decoder_units * 2) (\<lambda>x. leakyReLU x 0.3);
       let side = (shape X ! 1) div 2;
       let reshape_dim = [- 1, int side, int side, int image_channel];
       X \<leftarrow> tf_reshape X reshape_dim;
       X \<leftarrow> conv2d_transpose (dec_conv_1 p) (dec_keep_1 r) X 64 4 2 tf_nn_relu True;
       X \<leftarrow> conv2d_transpose (dec_conv_2 p) (dec_keep_2 r) X 64 4 1 tf_nn_relu True;
       X \<leftarrow> conv2d_transpose (dec_conv_3 p) (\<lambda>n. True) X 64 4 1 tf_nn_relu False;
       X \<leftarrow> flatten X;
       X \<leftarrow> dense (dec_dense_3 p) X image_size_flat tf_nn_sigmoid;
       tf_reshape X (- 1 # map int image_shape)
     }"

section \<open>The loss\<close>

text \<open>
  The three loss tensors of the cell after the decoder, as functions of the tensors
  they are built from: \<^verbatim>\<open>img_loss\<close> from \<^verbatim>\<open>img\<close> and the placeholder \<^verbatim>\<open>y\<close>,
  \<^verbatim>\<open>latent_loss\<close> from \<^verbatim>\<open>mean\<close> and \<^verbatim>\<open>stddev\<close>, \<^verbatim>\<open>loss\<close> from the two.
\<close>

definition img_loss :: "tensor \<Rightarrow> tensor \<Rightarrow> tensor option" where
  "img_loss img y =
     do {
       img_reshape \<leftarrow> tf_reshape img [- 1, int image_size_flat];
       d \<leftarrow> tf_squared_difference img_reshape y;
       tf_reduce_sum_axis1 d
     }"

definition latent_loss :: "tensor \<Rightarrow> tensor \<Rightarrow> tensor option" where
  "latent_loss mean stddev =
     do {
       a \<leftarrow> tf_subtract (scalar_add 1 (scalar_mul 2 stddev)) (tf_square mean);
       b \<leftarrow> tf_subtract a (tf_exp (scalar_mul 2 stddev));
       s \<leftarrow> tf_reduce_sum_axis1 b;
       Some (scalar_mul (- 0.5) s)
     }"

definition loss :: "tensor \<Rightarrow> tensor \<Rightarrow> real option" where
  "loss il ll =
     do {
       s \<leftarrow> tf_add il ll;
       tf_reduce_mean s
     }"

section \<open>The graph the notebook builds\<close>

text \<open>
  The notebook wires the tensors once:
  \<^verbatim>\<open>z, mean, stddev = encoder(X)\<close>, \<^verbatim>\<open>img = decoder(z)\<close>, and the loss tensors from
  \<^verbatim>\<open>img\<close>, \<^verbatim>\<open>y\<close>, \<^verbatim>\<open>mean\<close> and \<^verbatim>\<open>stddev\<close>. \<^verbatim>\<open>sess.run\<close> evaluates the
  tensors it is asked for and what they depend on, with one set of random draws for the
  whole call. Each function below is one tensor of the graph as a function of the
  variables, the draws and the values fed for the placeholders \<^verbatim>\<open>X\<close> and \<^verbatim>\<open>y\<close>.
\<close>

record graph_vars =
  enc_vars :: encoder_vars
  dec_vars :: decoder_vars

record graph_draws =
  enc_draws :: encoder_draws
  dec_draws :: decoder_draws

definition run_img :: "graph_vars \<Rightarrow> graph_draws \<Rightarrow> tensor \<Rightarrow> tensor option" where
  "run_img v d X =
     do {
       (z, mean, stddev) \<leftarrow> encoder (enc_vars v) (enc_draws d) X;
       decoder (dec_vars v) (dec_draws d) z
     }"

definition run_img_loss :: "graph_vars \<Rightarrow> graph_draws \<Rightarrow> tensor \<Rightarrow> tensor \<Rightarrow> tensor option" where
  "run_img_loss v d X y =
     do {
       img \<leftarrow> run_img v d X;
       img_loss img y
     }"

definition run_latent_loss :: "graph_vars \<Rightarrow> graph_draws \<Rightarrow> tensor \<Rightarrow> tensor option" where
  "run_latent_loss v d X =
     do {
       (z, mean, stddev) \<leftarrow> encoder (enc_vars v) (enc_draws d) X;
       latent_loss mean stddev
     }"

definition run_loss :: "graph_vars \<Rightarrow> graph_draws \<Rightarrow> tensor \<Rightarrow> tensor \<Rightarrow> real option" where
  "run_loss v d X y =
     do {
       il \<leftarrow> run_img_loss v d X y;
       ll \<leftarrow> run_latent_loss v d X;
       loss il ll
     }"

text \<open>
  Two readings of the encoder used to state claims about it: the tensor it returns third,
  and the output of the linear projection that tensor is computed from.
\<close>

definition encoder_stddev :: "encoder_vars \<Rightarrow> encoder_draws \<Rightarrow> tensor \<Rightarrow> tensor option" where
  "encoder_stddev p r X = map_option (\<lambda>(z, mean, stddev). stddev) (encoder p r X)"

definition encoder_mean :: "encoder_vars \<Rightarrow> encoder_draws \<Rightarrow> tensor \<Rightarrow> tensor option" where
  "encoder_mean p r X = map_option (\<lambda>(z, mean, stddev). mean) (encoder p r X)"

definition stddev_projection :: "encoder_vars \<Rightarrow> encoder_draws \<Rightarrow> tensor \<Rightarrow> tensor option" where
  "stddev_projection p r X =
     do {
       F \<leftarrow> encoder_features p r X;
       tf_layers_dense (enc_dense_stddev p) F n_latent (\<lambda>x. x)
     }"

section \<open>Start-up: the checkpoint directory\<close>

text \<open>
  The cell "Tensorboard" looks at \<^verbatim>\<open>save_path = 'models/'\<close>:
  \<^verbatim>\<open>
  if tf.gfile.Exists(save_path):
      if len(os.listdir(save_path)) > 1:
          saver.restore(sess=sess, save_path=save_path)
  else:
      tf.gfile.MakeDirs(save_path)
  \<close>
  The state of the path is \<open>None\<close> when nothing is there and \<open>Some names\<close> for a
  directory with these entries. The outcome is the directory as the cell leaves it and
  whether \<^verbatim>\<open>saver.restore\<close> was called.
\<close>

record startup_outcome =
  save_dir :: "string list option"
  restore_called :: bool

definition startup :: "string list option \<Rightarrow> startup_outcome" where
  "startup save_path =
     (case save_path of
        Some names \<Rightarrow>
          (if length names > 1
           then \<lparr>save_dir = Some names, restore_called = True\<rparr>
           else \<lparr>save_dir = Some names, restore_called = False\<rparr>)
      | None \<Rightarrow> \<lparr>save_dir = Some [], restore_called = False\<rparr>)"

section \<open>The training loop\<close>

subsection \<open>Python values, names and \<^verbatim>\<open>str.format\<close>\<close>

text \<open>
  What the logging statement needs of Python: a name that was never assigned raises
  \<^verbatim>\<open>NameError\<close>; \<^verbatim>\<open>str.format\<close> fills its replacement fields from left to right
  with the next positional argument; the field \<^verbatim>\<open>{:.2f}\<close> renders a number and
  raises \<^verbatim>\<open>TypeError\<close> for an array; the field \<^verbatim>\<open>{.2f}\<close> has no colon and asks for
  the attribute \<^verbatim>\<open>2f\<close> of its argument, which no value has; \<^verbatim>\<open>{}\<close> renders
  anything. How a number is rendered is the library's business: it is a parameter.
\<close>

datatype py_error =
    NameError string
  | TypeError
  | AttributeError string
  | IndexError
  | InvalidArgumentError

datatype pyval =
    Scalar real
  | Array tensor
  | Time real
  | Other

datatype field =
    Lit string
  | Fixed2
  | Attr string
  | Plain

record renderer =
  render_fixed2 :: "real \<Rightarrow> string"
  render_plain :: "pyval \<Rightarrow> string"

fun format_field :: "renderer \<Rightarrow> field \<Rightarrow> pyval \<Rightarrow> py_error + string" where
  "format_field rd Fixed2 (Scalar x) = Inr (render_fixed2 rd x)"
| "format_field rd Fixed2 v = Inl TypeError"
| "format_field rd (Attr a) v = Inl (AttributeError a)"
| "format_field rd Plain v = Inr (render_plain rd v)"
| "format_field rd (Lit s) v = Inr s"

fun py_format :: "renderer \<Rightarrow> field list \<Rightarrow> pyval list \<Rightarrow> py_error + string" where
  "py_format rd [] args = Inr []"
| "py_format rd (Lit s # fs) args =
     (case py_format rd fs args of Inl e \<Rightarrow> Inl e | Inr rest \<Rightarrow> Inr (s @ rest))"
| "py_format rd (f # fs) [] = Inl IndexError"
| "py_format rd (f # fs) (a # args) =
     (case format_field rd f a of
        Inl e \<Rightarrow> Inl e
      | Inr s \<Rightarrow> (case py_format rd fs args of Inl e \<Rightarrow> Inl e | Inr rest \<Rightarrow> Inr (s @ rest)))"

definition lookup :: "(string \<rightharpoonup> pyval) \<Rightarrow> string \<Rightarrow> py_error + pyval" where
  "lookup ns x = (case ns x of None \<Rightarrow> Inl (NameError x) | Some v \<Rightarrow> Inr v)"

text \<open>Subtracting one reading of the clock from another; other operands raise.\<close>

fun minus_time :: "pyval \<Rightarrow> pyval \<Rightarrow> py_error + pyval" where
  "minus_time (Time a) (Time b) = Inr (Time (a - b))"
| "minus_time a b = Inl TypeError"

text \<open>
  The format string of the logging statement,
  \<^verbatim>\<open>'\rLoss={:.2f}\timg_loss = {:.2f}\tlatent_loss = {:.2f}\tmean = {.2f}\tstddev = {:.2f}\tTime taken = {}'\<close>,
  field by field.
\<close>

definition log_format :: "field list" where
  "log_format =
     [Lit (CHR 0x0D # ''Loss=''), Fixed2,
      Lit (CHR 0x09 # ''img_loss = ''), Fixed2,
      Lit (CHR 0x09 # ''latent_loss = ''), Fixed2,
      Lit (CHR 0x09 # ''mean = ''), Attr ''2f'',
      Lit (CHR 0x09 # ''stddev = ''), Fixed2,
      Lit (CHR 0x09 # ''Time taken = ''), Plain]"

text \<open>
  The names the notebook has assigned when the training cell starts: every assignment,
  import and \<^verbatim>\<open>def\<close> of the cells above it. Python's builtins, none of which is
  called \<^verbatim>\<open>start_time\<close>, are left out. The training cell itself first assigns
  \<^verbatim>\<open>train_start\<close>.
\<close>

definition notebook_names :: "string list" where
  "notebook_names =
     [''sys'', ''os'', ''dt'', ''np'', ''tf'', ''plt'', ''input_data'', ''data'',
      ''image_size'', ''image_channel'', ''image_size_flat'', ''image_shape'',
      ''keep_prob'', ''n_latent'', ''decoder_units'', ''learning_rate'', ''batch_size'',
      ''iterations'', ''log_step'', ''viz_step'', ''X'', ''y'',
      ''leakyReLU'', ''conv2d'', ''conv2d_transpose'', ''dense'', ''encoder'', ''decoder'',
      ''z'', ''mean'', ''stddev'', ''img'', ''img_reshape'', ''img_loss'', ''latent_loss'',
      ''loss'', ''optimizer'', ''train_step'', ''sess'', ''init'',
      ''tensorboard_path'', ''save_path'', ''logdir'', ''pretrained'', ''saver'', ''writer'']"

definition notebook_namespace :: "string \<rightharpoonup> pyval" where
  "notebook_namespace = map_of (map (\<lambda>x. (x, Other)) notebook_names)"

subsection \<open>One iteration and the loop\<close>

text \<open>
  What the loop takes from outside: the batches of the data set, the random draws of
  every \<^verbatim>\<open>sess.run\<close> (the first, second and third call of an iteration), the clock,
  the optimizer's update of the variables and the rendering of numbers. The optimizer is
  not modelled; a \<^verbatim>\<open>sess.run(train_step)\<close> first computes \<^verbatim>\<open>loss\<close> and fails when
  that has no value.
\<close>

record train_env =
  next_batch :: "nat \<Rightarrow> tensor"
  draws_of :: "nat \<Rightarrow> nat \<Rightarrow> graph_draws"
  clock :: "nat \<Rightarrow> real"
  adam :: "graph_vars \<Rightarrow> graph_draws \<Rightarrow> tensor \<Rightarrow> graph_vars"
  rendering :: renderer

record train_state =
  vars :: graph_vars
  namespace :: "string \<rightharpoonup> pyval"
  stdout :: "string list"

definition sess_run_train_step ::
  "train_env \<Rightarrow> graph_vars \<Rightarrow> graph_draws \<Rightarrow> tensor \<Rightarrow> tensor \<Rightarrow> py_error + graph_vars" where
  "sess_run_train_step env v d X y =
     (case run_loss v d X y of
        None \<Rightarrow> Inl InvalidArgumentError
      | Some l \<Rightarrow> Inr (adam env v d X))"

text \<open>
  The logging statement. \<^verbatim>\<open>sess.run\<close> evaluates the five tensors on the batch and
  their values are assigned to \<^verbatim>\<open>_loss, _img_loss, _latent_loss, _mean, _stddev\<close>; the
  call of \<^verbatim>\<open>format\<close> then evaluates its six arguments in order, the last being
  \<^verbatim>\<open>dt.datetime.now() - start_time\<close>; the formatted line goes to
  \<^verbatim>\<open>sys.stdout.write\<close>.
\<close>

definition sess_run_log_fetches ::
  "graph_vars \<Rightarrow> graph_draws \<Rightarrow> tensor \<Rightarrow> (real \<times> tensor \<times> tensor \<times> tensor \<times> tensor) option" where
  "sess_run_log_fetches v d batch =
     do {
       l \<leftarrow> run_loss v d batch batch;
       il \<leftarrow> run_img_loss v d batch batch;
       ll \<leftarrow> run_latent_loss v d batch;
       m \<leftarrow> encoder_mean (enc_vars v) (enc_draws d) batch;
       sd \<leftarrow> encoder_stddev (enc_vars v) (enc_draws d) batch;
       Some (l, il, ll, m, sd)
     }"

fun lookup_all :: "(string \<rightharpoonup> pyval) \<Rightarrow> string list \<Rightarrow> py_error + pyval list" where
  "lookup_all ns [] = Inr []"
| "lookup_all ns (x # xs) =
     (case lookup ns x of
        Inl e \<Rightarrow> Inl e
      | Inr v \<Rightarrow> (case lookup_all ns xs of Inl e \<Rightarrow> Inl e | Inr vs \<Rightarrow> Inr (v # vs)))"

definition log_statement :: "train_env \<Rightarrow> nat \<Rightarrow> tensor \<Rightarrow> train_state \<Rightarrow> py_error + train_state" where
  "log_statement env i batch s =
     (case sess_run_log_fetches (vars s) (draws_of env i 1) batch of
        None \<Rightarrow> Inl InvalidArgumentError
      | Some (l, il, ll, m, sd) \<Rightarrow>
          (let ns = (namespace s)
                 (''_loss'' \<mapsto> Scalar l, ''_img_loss'' \<mapsto> Array il,
                  ''_latent_loss'' \<mapsto> Array ll, ''_mean'' \<mapsto> Array m,
                  ''_stddev'' \<mapsto> Array sd)
           in case lookup_all ns
                     [''_loss'', ''_img_loss'', ''_latent_loss'', ''_mean'', ''_stddev''] of
                Inl e \<Rightarrow> Inl e
              | Inr args \<Rightarrow>
             (case lookup ns ''start_time'' of
                Inl e \<Rightarrow> Inl e
              | Inr t0 \<Rightarrow>
             (case minus_time (Time (clock env i)) t0 of
                Inl e \<Rightarrow> Inl e
              | Inr elapsed \<Rightarrow>
             (case py_format (rendering env) log_format (args @ [elapsed]) of
                Inl e \<Rightarrow> Inl e
              | Inr line \<Rightarrow> Inr (s\<lparr>namespace := ns, stdout := stdout s @ [line]\<rparr>))))))"

text \<open>
  The plotting statement runs \<^verbatim>\<open>img\<close> once more and ends with \<^verbatim>\<open>print()\<close>, which
  writes a line feed.
\<close>

definition viz_statement :: "train_env \<Rightarrow> nat \<Rightarrow> tensor \<Rightarrow> train_state \<Rightarrow> py_error + train_state" where
  "viz_statement env i batch s =
     (case run_img (vars s) (draws_of env i 2) batch of
        None \<Rightarrow> Inl InvalidArgumentError
      | Some r \<Rightarrow> Inr (s\<lparr>stdout := stdout s @ [[CHR 0x0A]]\<rparr>))"

text \<open>
  The body of the \<^verbatim>\<open>for\<close> loop. An exception ends the loop; the state at that
  moment is kept beside it, so that what had been written to the console can be read.
\<close>

definition iteration :: "train_env \<Rightarrow> nat \<Rightarrow> train_state \<Rightarrow> py_error option \<times> train_state" where
  "iteration env i s =
     (let batch = next_batch env i
      in case sess_run_train_step env (vars s) (draws_of env i 0) batch batch of
           Inl e \<Rightarrow> (Some e, s)
         | Inr v \<Rightarrow>
             (let s1 = s\<lparr>vars := v\<rparr>
              in case (if i mod log_step = 0 then log_statement env i batch s1 else Inr s1) of
                   Inl e \<Rightarrow> (Some e, s1)
                 | Inr s2 \<Rightarrow>
                     (case (if i mod viz_step = 0 then viz_statement env i batch s2 else Inr s2) of
                        Inl e \<Rightarrow> (Some e, s2)
                      | Inr s3 \<Rightarrow> (None, s3))))"

fun train_loop :: "train_env \<Rightarrow> nat list \<Rightarrow> train_state \<Rightarrow> py_error option \<times> train_state" where
  "train_loop env [] s = (None, s)"
| "train_loop env (i # is) s =
     (case iteration env i s of
        (Some e, s') \<Rightarrow> (Some e, s')
      | (None, s') \<Rightarrow> train_loop env is s')"

text \<open>
  The training cell: \<^verbatim>\<open>train_start = dt.datetime.now()\<close>, then the loop over
  \<^verbatim>\<open>range(iterations)\<close>, with nothing written to the console yet.
\<close>

definition train :: "train_env \<Rightarrow> graph_vars \<Rightarrow> py_error option \<times> train_state" where
  "train env v =
     train_loop env [0..<iterations]
       \<lparr>vars = v,
        namespace = notebook_namespace(''train_start'' \<mapsto> Time (clock env 0)),
        stdout = []\<rparr>"

section \<open>Concrete inputs\<close>

text \<open>
  Inputs at which the theorems below are instantiated: constant tensors, layers with
  constant variables, and constant draws.
\<close>

definition const_tensor :: "nat list \<Rightarrow> real \<Rightarrow> tensor" where
  "const_tensor sh c = \<lparr>shape = sh, data = replicate (prod_list sh) c\<rparr>"

definition const_conv :: "real \<Rightarrow> real \<Rightarrow> conv_vars" where
  "const_conv k b = \<lparr>conv_kernel = (\<lambda>di dj c f. k), conv_bias = (\<lambda>f. b)\<rparr>"

definition const_dense :: "real \<Rightarrow> real \<Rightarrow> dense_vars" where
  "const_dense k b = \<lparr>dense_kernel = (\<lambda>i u. k), dense_bias = (\<lambda>u. b)\<rparr>"

definition const_keep :: "bool \<Rightarrow> nat \<Rightarrow> bool" where
  "const_keep b n = b"

definition const_noise :: "real \<Rightarrow> nat \<Rightarrow> real" where
  "const_noise c n = c"

text \<open>
  An encoder whose convolutions have kernel 0 and bias 1, whose mean projection has
  kernel \<open>km\<close> and bias 0 and whose other projection has kernel 0 and bias \<open>bs\<close>; a
  decoder with all variables 0.
\<close>

definition example_encoder :: "real \<Rightarrow> real \<Rightarrow> encoder_vars" where
  "example_encoder km bs =
     \<lparr>enc_conv_1 = const_conv 0 1, enc_conv_2 = const_conv 0 1, enc_conv_3 = const_conv 0 1,
      enc_dense_mean = const_dense km 0, enc_dense_stddev = const_dense 0 bs\<rparr>"

text \<open>
  The same encoder with kernel 1 and bias 0 in both projections, so that \<open>mean\<close> and
  \<open>stddev\<close> both depend on the convolutional features.
\<close>

definition dropout_example_encoder :: encoder_vars where
  "dropout_example_encoder = (example_encoder 1 0)\<lparr>enc_dense_stddev := const_dense 1 0\<rparr>"

definition example_decoder :: decoder_vars where
  "example_decoder =
     \<lparr>dec_dense_1 = const_dense 0 0, dec_dense_2 = const_dense 0 0,
      dec_conv_1 = const_conv 0 0, dec_conv_2 = const_conv 0 0, dec_conv_3 = const_conv 0 0,
      dec_dense_3 = const_dense 0 0\<rparr>"

definition example_encoder_draws :: "bool \<Rightarrow> real \<Rightarrow> encoder_draws" where
  "example_encoder_draws keep3 c =
     \<lparr>enc_keep_1 = const_keep True, enc_keep_2 = const_keep True,
      enc_keep_3 = const_keep keep3, enc_noise = const_noise c\<rparr>"

definition example_decoder_draws :: decoder_draws where
  "example_decoder_draws = \<lparr>dec_keep_1 = const_keep True, dec_keep_2 = const_keep True\<rparr>"

definition example_vars :: "real \<Rightarrow> real \<Rightarrow> graph_vars" where
  "example_vars km bs = \<lparr>enc_vars = example_encoder km bs, dec_vars = example_decoder\<rparr>"

definition example_draws :: "bool \<Rightarrow> real \<Rightarrow> graph_draws" where
  "example_draws keep3 c =
     \<lparr>enc_draws = example_encoder_draws keep3 c, dec_draws = example_decoder_draws\<rparr>"

section \<open>Shapes and entries of the library operations\<close>

lemma shape_tabulate [simp]: "shape (tabulate sh f) = sh"
  by (simp add: tabulate_def)

lemma length_data_tabulate [simp]: "length (data (tabulate sh f)) = prod_list sh"
  by (simp add: tabulate_def)

lemma nth_data_tabulate [simp]: "n < prod_list sh \<Longrightarrow> data (tabulate sh f) ! n = f n"
  by (simp add: tabulate_def)

lemma well_shaped_tabulate [simp]: "well_shaped (tabulate sh f)"
  by (simp add: well_shaped_def)

lemma tabulate_cong:
  "(\<And>n. n < prod_list sh \<Longrightarrow> f n = g n) \<Longrightarrow> tabulate sh f = tabulate sh g"
  by (simp add: tabulate_def)

lemma shape_tf_map [simp]: "shape (tf_map f t) = shape t"
  by (simp add: tf_map_def)

lemma data_tf_map [simp]: "data (tf_map f t) = map f (data t)"
  by (simp add: tf_map_def)

lemma well_shaped_tf_map [simp]: "well_shaped (tf_map f t) = well_shaped t"
  by (simp add: well_shaped_def)

lemma bshape_rev_same: "bshape_rev xs xs = Some xs"
  by (induction xs) auto

lemma broadcast_shapes_same: "broadcast_shapes sh sh = Some sh"
  by (simp add: broadcast_shapes_def bshape_rev_same)

lemma length_unravel [simp]: "length (unravel sh n) = length sh"
  by (induction sh arbitrary: n) auto

lemma ravel_unravel_bcast:
  "n < prod_list sh \<Longrightarrow>
   ravel sh (map2 (\<lambda>d i. if d = 1 then 0 else i) sh (unravel sh n)) = n"
proof (induction sh arbitrary: n)
  case Nil
  then show ?case by simp
next
  case (Cons d ds)
  have pos: "0 < prod_list ds" using Cons.prems by (cases "prod_list ds = 0") auto
  then have "n mod prod_list ds < prod_list ds" by simp
  then have IH: "ravel ds (map2 (\<lambda>d i. if d = 1 then 0 else i) ds (unravel ds (n mod prod_list ds)))
             = n mod prod_list ds" by (rule Cons.IH)
  show ?case
  proof (cases "d = 1")
    case True
    then have "n < prod_list ds" using Cons.prems by simp
    then show ?thesis using True IH by simp
  next
    case False
    then show ?thesis using IH by simp
  qed
qed

lemma bcast_at_same:
  "n < prod_list (shape t) \<Longrightarrow> bcast_at t (unravel (shape t) n) = data t ! n"
  by (simp only: bcast_at_def length_unravel diff_self_eq_0 drop_0 ravel_unravel_bcast)

lemma tf_binop_same:
  "shape a = sh \<Longrightarrow> shape b = sh \<Longrightarrow>
   tf_binop f a b = Some (tabulate sh (\<lambda>n. f (data a ! n) (data b ! n)))"
proof -
  assume a: "shape a = sh" and b: "shape b = sh"
  have "tabulate sh (\<lambda>n. f (bcast_at a (unravel sh n)) (bcast_at b (unravel sh n)))
      = tabulate sh (\<lambda>n. f (data a ! n) (data b ! n))"
    using bcast_at_same [of _ a] bcast_at_same [of _ b] a b
    by (intro tabulate_cong) simp
  then show ?thesis
    using a b by (simp add: tf_binop_def broadcast_shapes_same)
qed

lemma tf_reshape_leading:
  assumes "list_all (\<lambda>d. 0 < d) ds" and "prod_list (shape t) mod prod_list (map nat ds) = 0"
  shows "tf_reshape t (- 1 # ds)
         = Some \<lparr>shape = (prod_list (shape t) div prod_list (map nat ds)) # map nat ds,
                 data = data t\<rparr>"
proof -
  have f: "filter (\<lambda>d. d \<noteq> - 1) ds = ds"
    using assms(1) by (induction ds) auto
  have c: "count_list ds (- 1) = 0"
    using assms(1) by (induction ds) auto
  have e: "\<not> list_ex (\<lambda>d. d < - 1) ds"
    using assms(1) by (induction ds) auto
  have m: "map (\<lambda>d. if d = - 1 then K else nat d) ds = map nat ds" for K
    using assms(1) by (induction ds) auto
  have nz: "prod_list (map nat ds) \<noteq> 0"
    using assms(1) by (induction ds) auto
  show ?thesis
    using assms(2) f c e nz by (simp add: tf_reshape_def Let_def m)
qed

lemma tf_reshape_leading_None:
  assumes "list_all (\<lambda>d. 0 < d) ds" and "prod_list (shape t) mod prod_list (map nat ds) \<noteq> 0"
  shows "tf_reshape t (- 1 # ds) = None"
proof -
  have f: "filter (\<lambda>d. d \<noteq> - 1) ds = ds"
    using assms(1) by (induction ds) auto
  have c: "count_list ds (- 1) = 0"
    using assms(1) by (induction ds) auto
  have e: "\<not> list_ex (\<lambda>d. d < - 1) ds"
    using assms(1) by (induction ds) auto
  show ?thesis
    using assms(2) f c e by (simp add: tf_reshape_def Let_def)
qed

lemma tf_layers_conv2d_shape:
  "shape X = [B, H, W, C] \<Longrightarrow> s \<noteq> 0 \<Longrightarrow>
   \<exists>T. tf_layers_conv2d v X F k s act = Some T
      \<and> shape T = [B, same_out H s, same_out W s, F] \<and> well_shaped T"
  by (simp add: tf_layers_conv2d_def Let_def)

lemma tf_layers_conv2d_transpose_shape:
  "shape X = [B, H, W, C] \<Longrightarrow> s \<noteq> 0 \<Longrightarrow>
   \<exists>T. tf_layers_conv2d_transpose v X F k s act = Some T
      \<and> shape T = [B, H * s, W * s, F] \<and> well_shaped T"
  by (simp add: tf_layers_conv2d_transpose_def Let_def)

lemma shape_dropout [simp]: "shape (tf_nn_dropout keep t kp) = shape t"
  by (simp add: tf_nn_dropout_def)

lemma length_data_dropout [simp]: "length (data (tf_nn_dropout keep t kp)) = length (data t)"
  by (simp add: tf_nn_dropout_def)

lemma well_shaped_dropout [simp]: "well_shaped (tf_nn_dropout keep t kp) = well_shaped t"
  by (simp add: well_shaped_def)

lemma conv2d_shape:
  assumes "shape X = [B, H, W, C]" and "s \<noteq> 0"
  shows "\<exists>T. conv2d v keep X F k s act d = Some T
      \<and> shape T = [B, same_out H s, same_out W s, F] \<and> well_shaped T"
proof -
  from tf_layers_conv2d_shape [OF assms, of v F k act]
  obtain T where "tf_layers_conv2d v X F k s act = Some T"
    "shape T = [B, same_out H s, same_out W s, F]" "well_shaped T" by blast
  then show ?thesis by (simp add: conv2d_def)
qed

lemma conv2d_transpose_shape:
  assumes "shape X = [B, H, W, C]" and "s \<noteq> 0"
  shows "\<exists>T. conv2d_transpose v keep X F k s act d = Some T
      \<and> shape T = [B, H * s, W * s, F] \<and> well_shaped T"
proof -
  from tf_layers_conv2d_transpose_shape [OF assms, of v F k act]
  obtain T where "tf_layers_conv2d_transpose v X F k s act = Some T"
    "shape T = [B, H * s, W * s, F]" "well_shaped T" by blast
  then show ?thesis by (simp add: conv2d_transpose_def)
qed

lemma tf_layers_dense_rank2:
  "shape X = [B, n] \<Longrightarrow>
   tf_layers_dense v X units act
   = Some (tabulate [B, units]
       (\<lambda>k. act (dense_bias v (k mod units) +
          sum_range n (\<lambda>i. data X ! ((k div units) * n + i) * dense_kernel v i (k mod units)))))"
  by (simp add: tf_layers_dense_def Let_def)

lemma flatten_rank4:
  "shape X = [B, H, W, C] \<Longrightarrow> flatten X = Some \<lparr>shape = [B, H * W * C], data = data X\<rparr>"
  by (simp add: flatten_def mult.assoc)

lemma encoder_features_shape:
  assumes "shape X = [B, image_size_flat]"
  shows "\<exists>F. encoder_features p r X = Some F \<and> shape F = [B, 3136] \<and> well_shaped F"
proof -
  have "prod_list (shape X) mod prod_list (map nat [int image_size, int image_size, int image_channel]) = 0"
    using assms by (simp add: image_size_flat_def)
  then have r0: "tf_reshape X [- 1, int image_size, int image_size, int image_channel]
      = Some \<lparr>shape = [B, 28, 28, 1], data = data X\<rparr>"
    using assms
    by (subst tf_reshape_leading) (simp_all add: image_size_def image_channel_def image_size_flat_def)
  define X0 where "X0 = \<lparr>shape = [B, 28, 28, 1], data = data X\<rparr>"
  have s0: "shape X0 = [B, 28, 28, 1]" by (simp add: X0_def)
  obtain X1 where c1: "conv2d (enc_conv_1 p) (enc_keep_1 r) X0 64 4 2 (\<lambda>x. leakyReLU x 0.3) True = Some X1"
    and s1: "shape X1 = [B, same_out 28 2, same_out 28 2, 64]"
    using conv2d_shape [OF s0, of 2] by fastforce
  obtain X2 where c2: "conv2d (enc_conv_2 p) (enc_keep_2 r) X1 64 4 2 (\<lambda>x. leakyReLU x 0.3) True = Some X2"
    and s2: "shape X2 = [B, same_out (same_out 28 2) 2, same_out (same_out 28 2) 2, 64]"
    using conv2d_shape [OF s1, of 2] by fastforce
  obtain X3 where c3: "conv2d (enc_conv_3 p) (enc_keep_3 r) X2 64 4 1 (\<lambda>x. leakyReLU x 0.3) True = Some X3"
    and s3: "shape X3 = [B, same_out (same_out (same_out 28 2) 2) 1, same_out (same_out (same_out 28 2) 2) 1, 64]"
    and w3: "well_shaped X3"
    using conv2d_shape [OF s2, of 1] by fastforce
  have s3': "shape X3 = [B, 7, 7, 64]"
    using s3 by (simp add: same_out_def)
  have "encoder_features p r X = flatten X3"
    using r0 c1 c2 c3 by (simp add: encoder_features_def X0_def)
  moreover have "flatten X3 = Some \<lparr>shape = [B, 7 * 7 * 64], data = data X3\<rparr>"
    using s3' by (rule flatten_rank4)
  ultimately show ?thesis
    using w3 s3' by (simp add: well_shaped_def)
qed

lemma shape_scalar_mul [simp]: "shape (scalar_mul c t) = shape t"
  by (simp add: scalar_mul_def)

lemma shape_scalar_add [simp]: "shape (scalar_add c t) = shape t"
  by (simp add: scalar_add_def)

lemma shape_tf_exp [simp]: "shape (tf_exp t) = shape t"
  by (simp add: tf_exp_def)

lemma shape_tf_square [simp]: "shape (tf_square t) = shape t"
  by (simp add: tf_square_def)

lemma shape_tf_random_normal [simp]: "shape (tf_random_normal draw sh) = sh"
  by (simp add: tf_random_normal_def)

lemma nth_scalar_mul: "n < length (data t) \<Longrightarrow> data (scalar_mul c t) ! n = c * data t ! n"
  by (simp add: scalar_mul_def)

lemma nth_tf_exp: "n < length (data t) \<Longrightarrow> data (tf_exp t) ! n = exp (data t ! n)"
  by (simp add: tf_exp_def)

section \<open>What the encoder returns\<close>

lemma encoder_unfold:
  assumes "shape X = [B, image_size_flat]"
  shows "\<exists>F mean proj.
           encoder_features p r X = Some F \<and> shape F = [B, 3136] \<and> well_shaped F
         \<and> tf_layers_dense (enc_dense_mean p) F n_latent (\<lambda>x. x) = Some mean
         \<and> shape mean = [B, n_latent] \<and> well_shaped mean
         \<and> tf_layers_dense (enc_dense_stddev p) F n_latent (\<lambda>x. x) = Some proj
         \<and> shape proj = [B, n_latent] \<and> well_shaped proj
         \<and> encoder p r X
             = Some (tabulate [B, n_latent]
                       (\<lambda>n. data mean ! n + enc_noise r n * exp (0.5 * data proj ! n)),
                     mean, scalar_mul 0.5 proj)"
proof -
  obtain F where F: "encoder_features p r X = Some F" "shape F = [B, 3136]" "well_shaped F"
    using encoder_features_shape [OF assms] by blast
  define mean where "mean = tabulate [B, n_latent]
       (\<lambda>k. dense_bias (enc_dense_mean p) (k mod n_latent) +
          sum_range 3136 (\<lambda>i. data F ! ((k div n_latent) * 3136 + i)
             * dense_kernel (enc_dense_mean p) i (k mod n_latent)))"
  define proj where "proj = tabulate [B, n_latent]
       (\<lambda>k. dense_bias (enc_dense_stddev p) (k mod n_latent) +
          sum_range 3136 (\<lambda>i. data F ! ((k div n_latent) * 3136 + i)
             * dense_kernel (enc_dense_stddev p) i (k mod n_latent)))"
  have dm: "tf_layers_dense (enc_dense_mean p) F n_latent (\<lambda>x. x) = Some mean"
    unfolding mean_def by (rule tf_layers_dense_rank2 [OF F(2)])
  have dp: "tf_layers_dense (enc_dense_stddev p) F n_latent (\<lambda>x. x) = Some proj"
    unfolding proj_def by (rule tf_layers_dense_rank2 [OF F(2)])
  have sm: "shape mean = [B, n_latent]" "well_shaped mean"
    by (simp_all add: mean_def)
  have sp: "shape proj = [B, n_latent]" "well_shaped proj"
    by (simp_all add: proj_def)
  have lp: "length (data proj) = B * n_latent"
    by (simp add: proj_def)
  define noise where "noise = tf_random_normal (enc_noise r) [shape F ! 0, n_latent]"
  have sn: "shape noise = [B, n_latent]"
    by (simp add: noise_def F(2))
  define scaled where "scaled = tabulate [B, n_latent]
       (\<lambda>n. data noise ! n * data (tf_exp (scalar_mul 0.5 proj)) ! n)"
  have mul: "tf_multiply noise (tf_exp (scalar_mul 0.5 proj)) = Some scaled"
    unfolding tf_multiply_def scaled_def
    by (rule tf_binop_same) (simp_all add: sn sp)
  have add: "tf_add mean scaled
      = Some (tabulate [B, n_latent] (\<lambda>n. data mean ! n + data scaled ! n))"
    unfolding tf_add_def
    by (rule tf_binop_same) (simp_all add: sm scaled_def)
  have z: "tabulate [B, n_latent] (\<lambda>n. data mean ! n + data scaled ! n)
      = tabulate [B, n_latent] (\<lambda>n. data mean ! n + enc_noise r n * exp (0.5 * data proj ! n))"
  proof (rule tabulate_cong)
    fix n assume n: "n < prod_list [B, n_latent]"
    then have "n < length (data proj)" by (simp add: lp)
    then have "data (tf_exp (scalar_mul 0.5 proj)) ! n = exp (0.5 * data proj ! n)"
      by (simp add: nth_tf_exp nth_scalar_mul scalar_mul_def)
    moreover have "data noise ! n = enc_noise r n"
      using n by (simp add: noise_def tf_random_normal_def F(2))
    ultimately show "data mean ! n + data scaled ! n
        = data mean ! n + enc_noise r n * exp (0.5 * data proj ! n)"
      using n by (simp add: scaled_def)
  qed
  have "encoder p r X = Some (tabulate [B, n_latent]
                       (\<lambda>n. data mean ! n + enc_noise r n * exp (0.5 * data proj ! n)),
                     mean, scalar_mul 0.5 proj)"
    using F(1) dm dp mul add z by (simp add: encoder_def noise_def)
  then show ?thesis
    using F dm dp sm sp by blast
qed

section \<open>The shape of what the decoder returns\<close>

lemma decoder_dense_2:
  assumes "shape z = [B, n]"
  shows "\<exists>D1 D2. dense (dec_dense_1 p) z decoder_units (\<lambda>x. leakyReLU x 0.3) = Some D1
       \<and> dense (dec_dense_2 p) z (decoder_units * 2) (\<lambda>x. leakyReLU x 0.3) = Some D2
       \<and> shape D2 = [B, 32] \<and> well_shaped D2"
  using assms by (simp add: dense_def tf_layers_dense_rank2 decoder_units_def image_channel_def)

lemma mod_256_iff: "(B * 32) mod 256 = 0 \<longleftrightarrow> 8 dvd (B::nat)"
  by presburger

lemma decoder_shape:
  assumes "shape z = [B, n]" and "8 dvd B"
  shows "\<exists>img. decoder p r z = Some img \<and> shape img = [B div 8, 28, 28, 1] \<and> well_shaped img"
proof -
  obtain D1 D2 where D: "dense (dec_dense_1 p) z decoder_units (\<lambda>x. leakyReLU x 0.3) = Some D1"
     "dense (dec_dense_2 p) z (decoder_units * 2) (\<lambda>x. leakyReLU x 0.3) = Some D2"
     "shape D2 = [B, 32]" "well_shaped D2"
    using decoder_dense_2 [OF assms(1)] by blast
  have side: "(shape D2 ! 1) div 2 = 16" by (simp add: D(3))
  have "prod_list (shape D2) mod prod_list (map nat [16, 16, int image_channel]) = 0"
    using assms(2) by (simp add: D(3) image_channel_def mod_256_iff)
  then have r0: "tf_reshape D2 [- 1, 16, 16, int image_channel]
      = Some \<lparr>shape = [B div 8, 16, 16, 1], data = data D2\<rparr>"
    by (subst tf_reshape_leading) (simp_all add: image_channel_def D(3))
  define X0 where "X0 = \<lparr>shape = [B div 8, 16, 16, 1], data = data D2\<rparr>"
  have s0: "shape X0 = [B div 8, 16, 16, 1]" by (simp add: X0_def)
  obtain X1 where c1: "conv2d_transpose (dec_conv_1 p) (dec_keep_1 r) X0 64 4 2 tf_nn_relu True = Some X1"
    and s1: "shape X1 = [B div 8, 16 * 2, 16 * 2, 64]"
    using conv2d_transpose_shape [OF s0, of 2] by fastforce
  obtain X2 where c2: "conv2d_transpose (dec_conv_2 p) (dec_keep_2 r) X1 64 4 1 tf_nn_relu True = Some X2"
    and s2: "shape X2 = [B div 8, 16 * 2 * 1, 16 * 2 * 1, 64]"
    using conv2d_transpose_shape [OF s1, of 1] by fastforce
  obtain X3 where c3: "conv2d_transpose (dec_conv_3 p) (\<lambda>n. True) X2 64 4 1 tf_nn_relu False = Some X3"
    and s3: "shape X3 = [B div 8, 16 * 2 * 1 * 1, 16 * 2 * 1 * 1, 64]"
    using conv2d_transpose_shape [OF s2, of 1] by fastforce
  have s3': "shape X3 = [B div 8, 32, 32, 64]" using s3 by simp
  define X4 where "X4 = \<lparr>shape = [B div 8, 32 * 32 * 64], data = data X3\<rparr>"
  have f: "flatten X3 = Some X4"
    unfolding X4_def using s3' by (rule flatten_rank4)
  have s4: "shape X4 = [B div 8, 65536]" by (simp add: X4_def)
  define X5 where "X5 = tabulate [B div 8, image_size_flat]
       (\<lambda>k. tf_nn_sigmoid (dense_bias (dec_dense_3 p) (k mod image_size_flat) +
          sum_range 65536 (\<lambda>i. data X4 ! ((k div image_size_flat) * 65536 + i)
             * dense_kernel (dec_dense_3 p) i (k mod image_size_flat))))"
  have d5: "dense (dec_dense_3 p) X4 image_size_flat tf_nn_sigmoid = Some X5"
    unfolding X5_def dense_def by (rule tf_layers_dense_rank2 [OF s4])
  have s5: "shape X5 = [B div 8, 784]" "well_shaped X5"
    by (simp_all add: X5_def image_size_flat_def image_size_def image_channel_def)
  have "prod_list (shape X5) mod prod_list (map nat (map int image_shape)) = 0"
    by (simp add: s5 image_shape_def image_size_def image_channel_def)
  then have r6: "tf_reshape X5 (- 1 # map int image_shape)
      = Some \<lparr>shape = [B div 8, 28, 28, 1], data = data X5\<rparr>"
    by (subst tf_reshape_leading)
      (simp_all add: s5 image_shape_def image_size_def image_channel_def)
  have "decoder p r z = Some \<lparr>shape = [B div 8, 28, 28, 1], data = data X5\<rparr>"
    using D(1,2) side r0 c1 c2 c3 f d5 r6 by (simp add: decoder_def X0_def)
  moreover have "well_shaped \<lparr>shape = [B div 8, 28, 28, 1], data = data X5\<rparr>"
    using s5 by (simp add: well_shaped_def)
  ultimately show ?thesis by simp
qed

lemma decoder_fails:
  assumes "shape z = [B, n]" and "\<not> 8 dvd B"
  shows "decoder p r z = None"
proof -
  obtain D1 D2 where D: "dense (dec_dense_1 p) z decoder_units (\<lambda>x. leakyReLU x 0.3) = Some D1"
     "dense (dec_dense_2 p) z (decoder_units * 2) (\<lambda>x. leakyReLU x 0.3) = Some D2"
     "shape D2 = [B, 32]" "well_shaped D2"
    using decoder_dense_2 [OF assms(1)] by blast
  have side: "(shape D2 ! 1) div 2 = 16" by (simp add: D(3))
  have "prod_list (shape D2) mod prod_list (map nat [16, 16, int image_channel]) \<noteq> 0"
    using assms(2) by (simp add: D(3) image_channel_def mod_256_iff)
  then have r0: "tf_reshape D2 [- 1, 16, 16, int image_channel] = None"
    by (subst tf_reshape_leading_None) (simp_all add: image_channel_def)
  show ?thesis
    using D(1,2) side r0 by (simp add: decoder_def)
qed

section \<open>The decoder's first dense layer\<close>

lemma dense_defined_iff:
  "(dense v X units act = None) = (length (shape X) < 2)"
  by (simp add: dense_def tf_layers_dense_def Let_def)

text \<open>
  Claim C9. The output of the decoder's first dense layer is discarded: the second dense
  layer is applied to \<open>z\<close> itself, so whatever variables the first dense layer has, the
  decoder returns the same result (or raises alike).
\<close>

theorem decoder_ignores_first_dense:
  "decoder (p\<lparr>dec_dense_1 := d\<rparr>) r z = decoder p r z"
proof (cases "length (shape z) < 2")
  case True
  then show ?thesis
    by (simp add: decoder_def dense_def tf_layers_dense_def)
next
  case False
  then obtain A B where
    "dense d z decoder_units (\<lambda>x. leakyReLU x 0.3) = Some A"
    "dense (dec_dense_1 p) z decoder_units (\<lambda>x. leakyReLU x 0.3) = Some B"
    using dense_defined_iff by (metis option.exhaust)
  then show ?thesis
    by (simp add: decoder_def)
qed

section \<open>Start-up\<close>

text \<open>
  Claim C5, as stated: a restore is triggered if and only if the checkpoint directory is
  non-empty. It fails for a directory with exactly one entry: the directory is not
  empty, and \<^verbatim>\<open>saver.restore\<close> is not called.
\<close>

theorem startup_single_entry_no_restore:
  "\<not> (restore_called (startup (Some [''checkpoint''])) \<longleftrightarrow> [''checkpoint''] \<noteq> [])"
  by (simp add: startup_def)

text \<open>
  Claim C5, amended. A restore is triggered if and only if the checkpoint directory
  exists and holds more than one entry; after start-up the directory exists, empty when
  it had to be created and unchanged otherwise.
\<close>

theorem startup_checkpoint_directory:
  "(restore_called (startup d) \<longleftrightarrow> (\<exists>names. d = Some names \<and> 1 < length names))
   \<and> save_dir (startup d) = Some (case d of None \<Rightarrow> [] | Some names \<Rightarrow> names)"
  by (cases d) (simp_all add: startup_def)

section \<open>The loss formulas\<close>

lemma sum_range_cong:
  "(\<And>j. j < n \<Longrightarrow> f j = g j) \<Longrightarrow> sum_range n f = sum_range n g"
  unfolding sum_range_def by (rule arg_cong [where f = sum_list]) simp

lemma sum_range_nonneg: "(\<And>j. j < n \<Longrightarrow> 0 \<le> f j) \<Longrightarrow> 0 \<le> sum_range n f"
  unfolding sum_range_def by (rule sum_list_nonneg) auto

lemma sum_range_zero: "(\<And>j. j < n \<Longrightarrow> f j = 0) \<Longrightarrow> sum_range n f = 0"
proof -
  assume "\<And>j. j < n \<Longrightarrow> f j = 0"
  then have "sum_range n f = sum_range n (\<lambda>j. 0)" by (rule sum_range_cong)
  then show ?thesis by (simp add: sum_range_def)
qed

lemma sum_range_data: "sum_range (length xs) (\<lambda>i. xs ! i) = sum_list xs"
  by (simp add: sum_range_def map_nth)

lemma row_index_bound: "i < B \<Longrightarrow> j < n \<Longrightarrow> i * n + j < B * (n::nat)"
proof -
  assume i: "i < B" and j: "j < n"
  have "i * n + j < i * n + n" using j by simp
  also have "\<dots> = Suc i * n" by simp
  also have "\<dots> \<le> B * n" using i by (intro mult_le_mono1) simp
  finally show ?thesis .
qed

lemma scalar_mul_tabulate: "scalar_mul c (tabulate sh f) = tabulate sh (\<lambda>n. c * f n)"
  by (simp add: scalar_mul_def tf_map_def tabulate_def)

lemma tf_reduce_sum_axis1_rank2:
  "shape t = [B, n] \<Longrightarrow>
   tf_reduce_sum_axis1 t = Some (tabulate [B] (\<lambda>i. sum_range n (\<lambda>j. data t ! (i * n + j))))"
  by (simp add: tf_reduce_sum_axis1_def)

lemma latent_loss_unfold:
  assumes sm: "shape mean = [B, n]" and ss: "shape stddev = [B, n]"
    and wm: "well_shaped mean" and ws: "well_shaped stddev"
  shows "latent_loss mean stddev
         = Some (tabulate [B]
             (\<lambda>i. - 0.5 * sum_range n
                (\<lambda>j. 1 + 2 * at2 stddev i j - (at2 mean i j)\<^sup>2 - exp (2 * at2 stddev i j))))"
proof -
  have lm: "length (data mean) = B * n" using sm wm by (simp add: well_shaped_def)
  have ls: "length (data stddev) = B * n" using ss ws by (simp add: well_shaped_def)
  define a where "a = tabulate [B, n]
      (\<lambda>k. data (scalar_add 1 (scalar_mul 2 stddev)) ! k - data (tf_square mean) ! k)"
  have a: "tf_subtract (scalar_add 1 (scalar_mul 2 stddev)) (tf_square mean) = Some a"
    unfolding tf_subtract_def a_def by (rule tf_binop_same) (simp_all add: sm ss)
  define b where "b = tabulate [B, n] (\<lambda>k. data a ! k - data (tf_exp (scalar_mul 2 stddev)) ! k)"
  have b: "tf_subtract a (tf_exp (scalar_mul 2 stddev)) = Some b"
    unfolding tf_subtract_def b_def by (rule tf_binop_same) (simp_all add: a_def ss)
  have entry: "data b ! k = 1 + 2 * data stddev ! k - (data mean ! k)\<^sup>2 - exp (2 * data stddev ! k)"
    if "k < B * n" for k
    using that
    by (simp add: b_def a_def scalar_add_def scalar_mul_def tf_square_def tf_exp_def lm ls
        power2_eq_square)
  have s: "tf_reduce_sum_axis1 b = Some (tabulate [B] (\<lambda>i. sum_range n (\<lambda>j. data b ! (i * n + j))))"
    by (rule tf_reduce_sum_axis1_rank2) (simp add: b_def)
  have "tabulate [B] (\<lambda>i. - 0.5 * sum_range n (\<lambda>j. data b ! (i * n + j)))
      = tabulate [B] (\<lambda>i. - 0.5 * sum_range n
                (\<lambda>j. 1 + 2 * at2 stddev i j - (at2 mean i j)\<^sup>2 - exp (2 * at2 stddev i j)))"
  proof (rule tabulate_cong)
    fix i assume "i < prod_list [B]"
    then have i: "i < B" by simp
    have "sum_range n (\<lambda>j. data b ! (i * n + j))
        = sum_range n (\<lambda>j. 1 + 2 * at2 stddev i j - (at2 mean i j)\<^sup>2 - exp (2 * at2 stddev i j))"
      by (rule sum_range_cong) (simp add: entry row_index_bound [OF i] at2_def sm ss)
    then show "- 0.5 * sum_range n (\<lambda>j. data b ! (i * n + j))
        = - 0.5 * sum_range n
            (\<lambda>j. 1 + 2 * at2 stddev i j - (at2 mean i j)\<^sup>2 - exp (2 * at2 stddev i j))"
      by simp
  qed
  then show ?thesis
    using a b s by (simp add: latent_loss_def scalar_mul_tabulate)
qed

lemma kl_term_nonneg: "0 \<le> - 0.5 * (1 + 2 * s - m\<^sup>2 - exp (2 * s))" for s m :: real
proof -
  have "1 + 2 * s \<le> exp (2 * s)" by (rule exp_ge_add_one_self)
  moreover have "0 \<le> m\<^sup>2" by simp
  ultimately have "1 + 2 * s - m\<^sup>2 - exp (2 * s) \<le> 0" by linarith
  then show ?thesis by simp
qed

lemma loss_unfold:
  assumes si: "shape il = [B]" and sl: "shape ll = [B]" and B: "0 < B"
  shows "loss il ll = Some (sum_range B (\<lambda>i. data il ! i + data ll ! i) / real B)"
proof -
  have "tf_add il ll = Some (tabulate [B] (\<lambda>i. data il ! i + data ll ! i))"
    unfolding tf_add_def by (rule tf_binop_same) (simp_all add: si sl)
  moreover have "tf_reduce_mean (tabulate [B] (\<lambda>i. data il ! i + data ll ! i))
      = Some (sum_range B (\<lambda>i. data il ! i + data ll ! i) / real B)"
    using B by (simp add: tf_reduce_mean_def tabulate_def sum_range_def)
  ultimately show ?thesis by (simp add: loss_def)
qed

lemma tf_reduce_mean_rank1:
  assumes "shape il = [B]" and "well_shaped il" and "0 < B"
  shows "tf_reduce_mean il = Some (sum_range B (\<lambda>i. data il ! i) / real B)"
proof -
  have l: "length (data il) = B" using assms by (simp add: well_shaped_def)
  then have "data il \<noteq> []" using assms(3) by auto
  moreover have "sum_range B (\<lambda>i. data il ! i) = sum_list (data il)"
    using sum_range_data [of "data il"] l by simp
  ultimately show ?thesis by (simp add: tf_reduce_mean_def l)
qed

lemma sum_range_mono: "(\<And>j. j < n \<Longrightarrow> f j \<le> g j) \<Longrightarrow> sum_range n f \<le> sum_range n g"
  unfolding sum_range_def by (rule sum_list_mono) auto

lemma img_loss_unfold:
  assumes si: "shape img = B # image_shape" and sy: "shape y = [B, image_size_flat]"
    and wi: "well_shaped img"
  shows "img_loss img y
         = Some (tabulate [B]
             (\<lambda>i. sum_range image_size_flat
                (\<lambda>p. (data img ! (i * image_size_flat + p) - at2 y i p)\<^sup>2)))"
proof -
  have li: "length (data img) = B * image_size_flat"
    using si wi by (simp add: well_shaped_def image_shape_def image_size_flat_def)
  have "prod_list (shape img) mod prod_list (map nat [int image_size_flat]) = 0"
    by (simp add: si image_shape_def image_size_flat_def image_size_def image_channel_def)
  then have r: "tf_reshape img [- 1, int image_size_flat]
      = Some \<lparr>shape = [B, image_size_flat], data = data img\<rparr>"
    by (subst tf_reshape_leading)
      (simp_all add: si image_shape_def image_size_flat_def image_size_def image_channel_def)
  define img_reshape where "img_reshape = \<lparr>shape = [B, image_size_flat], data = data img\<rparr>"
  define d where "d = tabulate [B, image_size_flat]
      (\<lambda>k. (data img_reshape ! k - data y ! k) * (data img_reshape ! k - data y ! k))"
  have d: "tf_squared_difference img_reshape y = Some d"
    unfolding tf_squared_difference_def d_def
    by (rule tf_binop_same) (simp_all add: img_reshape_def sy)
  have s: "tf_reduce_sum_axis1 d
      = Some (tabulate [B] (\<lambda>i. sum_range image_size_flat (\<lambda>p. data d ! (i * image_size_flat + p))))"
    by (rule tf_reduce_sum_axis1_rank2) (simp add: d_def)
  have "tabulate [B] (\<lambda>i. sum_range image_size_flat (\<lambda>p. data d ! (i * image_size_flat + p)))
      = tabulate [B] (\<lambda>i. sum_range image_size_flat
                (\<lambda>p. (data img ! (i * image_size_flat + p) - at2 y i p)\<^sup>2))"
  proof (rule tabulate_cong)
    fix i assume "i < prod_list [B]"
    then have i: "i < B" by simp
    show "sum_range image_size_flat (\<lambda>p. data d ! (i * image_size_flat + p))
        = sum_range image_size_flat
            (\<lambda>p. (data img ! (i * image_size_flat + p) - at2 y i p)\<^sup>2)"
      by (rule sum_range_cong)
        (simp add: d_def img_reshape_def row_index_bound [OF i] at2_def sy power2_eq_square)
  qed
  then show ?thesis
    using r d s by (simp add: img_loss_def img_reshape_def)
qed

lemma shape_const_tensor [simp]: "shape (const_tensor sh c) = sh"
  by (simp add: const_tensor_def)

lemma well_shaped_const_tensor [simp]: "well_shaped (const_tensor sh c)"
  by (simp add: const_tensor_def well_shaped_def)

lemma nth_const_tensor [simp]: "n < prod_list sh \<Longrightarrow> data (const_tensor sh c) ! n = c"
  by (simp add: const_tensor_def)

lemma sum_range_const_mult: "c * sum_range n f = sum_range n (\<lambda>j. c * f j)"
  unfolding sum_range_def by (simp add: sum_list_const_mult)

text \<open>
  Claim C3. For a fed batch of \<open>B\<close> images the encoder returns, and the tensor
  \<^verbatim>\<open>latent_loss\<close> has one entry per example: entry \<open>i\<close> is \<open>-0.5\<close> times the sum
  over the latent dimensions \<open>j\<close> of
  \<open>1 + 2 * stddev[i, j] - mean[i, j]\<^sup>2 - exp (2 * stddev[i, j])\<close>, where \<open>mean\<close> and
  \<open>stddev\<close> are the second and third tensor the encoder returns.
\<close>

theorem kl_loss_formula:
  assumes "shape X = [B, image_size_flat]"
  shows "\<exists>z mean stddev.
           encoder (enc_vars v) (enc_draws d) X = Some (z, mean, stddev)
         \<and> run_latent_loss v d X
           = Some (tabulate [B]
               (\<lambda>i. - 0.5 * sum_range n_latent
                  (\<lambda>j. 1 + 2 * at2 stddev i j - (at2 mean i j)\<^sup>2 - exp (2 * at2 stddev i j))))"
proof -
  obtain F mean proj z where
    m: "shape mean = [B, n_latent]" "well_shaped mean"
    and p: "shape proj = [B, n_latent]" "well_shaped proj"
    and e: "encoder (enc_vars v) (enc_draws d) X = Some (z, mean, scalar_mul 0.5 proj)"
    using encoder_unfold [OF assms, of "enc_vars v" "enc_draws d"] by blast
  have "latent_loss mean (scalar_mul 0.5 proj)
      = Some (tabulate [B]
               (\<lambda>i. - 0.5 * sum_range n_latent
                  (\<lambda>j. 1 + 2 * at2 (scalar_mul 0.5 proj) i j - (at2 mean i j)\<^sup>2
                        - exp (2 * at2 (scalar_mul 0.5 proj) i j))))"
    by (rule latent_loss_unfold) (simp_all add: m p scalar_mul_def)
  then show ?thesis
    using e by (simp add: run_latent_loss_def)
qed

text \<open>Claim C3 at a batch of two zero images.\<close>

theorem kl_loss_formula_witness:
  "shape (const_tensor [2, image_size_flat] 0) = [2, image_size_flat]
   \<and> (\<exists>z mean stddev.
           encoder (enc_vars (example_vars 0 0)) (enc_draws (example_draws True 0))
             (const_tensor [2, image_size_flat] 0) = Some (z, mean, stddev)
         \<and> run_latent_loss (example_vars 0 0) (example_draws True 0)
             (const_tensor [2, image_size_flat] 0)
           = Some (tabulate [2]
               (\<lambda>i. - 0.5 * sum_range n_latent
                  (\<lambda>j. 1 + 2 * at2 stddev i j - (at2 mean i j)\<^sup>2 - exp (2 * at2 stddev i j)))))"
proof -
  have h: "shape (const_tensor [2, image_size_flat] 0) = [2, image_size_flat]" by simp
  show ?thesis
    using h kl_loss_formula [OF h, of "example_vars 0 0" "example_draws True 0"] by simp
qed

text \<open>
  Claim C8. For an example \<open>i\<close> whose \<open>mean\<close> row and \<open>stddev\<close> row are zero, the
  entry \<open>i\<close> of \<^verbatim>\<open>latent_loss\<close> is exactly 0.
\<close>

theorem kl_loss_zero_at_standard_normal:
  assumes "shape mean = [B, n]" and "shape stddev = [B, n]"
    and "well_shaped mean" and "well_shaped stddev"
    and "i < B" and "\<forall>j<n. at2 mean i j = 0 \<and> at2 stddev i j = 0"
  shows "\<exists>ll. latent_loss mean stddev = Some ll \<and> shape ll = [B] \<and> data ll ! i = 0"
proof -
  have "sum_range n (\<lambda>j. 1 + 2 * at2 stddev i j - (at2 mean i j)\<^sup>2 - exp (2 * at2 stddev i j)) = 0"
    by (rule sum_range_zero) (simp add: assms(6))
  then show ?thesis
    using latent_loss_unfold [OF assms(1-4)] assms(5) by simp
qed

text \<open>Claim C8 at two examples of latent dimension 8, all entries 0.\<close>

theorem kl_loss_zero_at_standard_normal_witness:
  "shape (const_tensor [2, 8] 0) = [2, 8] \<and> well_shaped (const_tensor [2, 8] 0)
   \<and> (1::nat) < 2
   \<and> (\<exists>ll. latent_loss (const_tensor [2, 8] 0) (const_tensor [2, 8] 0) = Some ll
          \<and> shape ll = [2] \<and> data ll ! 1 = 0)"
proof -
  have s: "shape (const_tensor [2, 8] 0) = [2, 8]" by simp
  have w: "well_shaped (const_tensor [2, 8] 0)" by simp
  have i: "(1::nat) < 2" by simp
  have z: "\<forall>j<8. at2 (const_tensor [2, 8] 0) 1 j = 0 \<and> at2 (const_tensor [2, 8] 0) 1 j = 0"
    by (simp add: at2_def)
  show ?thesis
    using s w i kl_loss_zero_at_standard_normal [OF s s w w i z] by simp
qed

text \<open>
  Claim C10. Over the reals every entry of \<^verbatim>\<open>latent_loss\<close> is non-negative, since
  \<open>1 + 2 * s \<le> exp (2 * s)\<close> and \<open>0 \<le> m\<^sup>2\<close>; hence for a non-empty batch the total
  \<^verbatim>\<open>loss\<close> is at least the mean of the reconstruction loss \<^verbatim>\<open>img_loss\<close>.
\<close>

theorem kl_loss_nonneg:
  assumes "shape mean = [B, n]" and "shape stddev = [B, n]"
    and "well_shaped mean" and "well_shaped stddev"
    and "shape il = [B]" and "well_shaped il" and "0 < B"
  shows "\<exists>ll total rec.
           latent_loss mean stddev = Some ll \<and> shape ll = [B]
         \<and> (\<forall>i<B. 0 \<le> data ll ! i)
         \<and> loss il ll = Some total \<and> tf_reduce_mean il = Some rec \<and> rec \<le> total"
proof -
  define ll where "ll = tabulate [B]
             (\<lambda>i. - 0.5 * sum_range n
                (\<lambda>j. 1 + 2 * at2 stddev i j - (at2 mean i j)\<^sup>2 - exp (2 * at2 stddev i j)))"
  have l: "latent_loss mean stddev = Some ll"
    unfolding ll_def by (rule latent_loss_unfold [OF assms(1-4)])
  have sl: "shape ll = [B]" by (simp add: ll_def)
  have nn: "0 \<le> data ll ! i" if "i < B" for i
  proof -
    have "0 \<le> sum_range n
        (\<lambda>j. - 0.5 * (1 + 2 * at2 stddev i j - (at2 mean i j)\<^sup>2 - exp (2 * at2 stddev i j)))"
      by (rule sum_range_nonneg) (rule kl_term_nonneg)
    also have "\<dots> = - 0.5 * sum_range n
        (\<lambda>j. 1 + 2 * at2 stddev i j - (at2 mean i j)\<^sup>2 - exp (2 * at2 stddev i j))"
      by (rule sum_range_const_mult [symmetric])
    also have "\<dots> = data ll ! i"
      using that by (simp add: ll_def)
    finally show ?thesis .
  qed
  have t: "loss il ll = Some (sum_range B (\<lambda>i. data il ! i + data ll ! i) / real B)"
    by (rule loss_unfold [OF assms(5) sl assms(7)])
  have r: "tf_reduce_mean il = Some (sum_range B (\<lambda>i. data il ! i) / real B)"
    by (rule tf_reduce_mean_rank1 [OF assms(5-7)])
  have "sum_range B (\<lambda>i. data il ! i) \<le> sum_range B (\<lambda>i. data il ! i + data ll ! i)"
    by (rule sum_range_mono) (simp add: nn)
  then have "sum_range B (\<lambda>i. data il ! i) / real B
      \<le> sum_range B (\<lambda>i. data il ! i + data ll ! i) / real B"
    using assms(7) by (simp add: divide_right_mono)
  then show ?thesis
    using l sl nn t r by blast
qed

text \<open>Claim C10 at two examples with all entries of \<open>mean\<close> and \<open>stddev\<close> equal to 1.\<close>

theorem kl_loss_nonneg_witness:
  "shape (const_tensor [2, 8] 1) = [2, 8] \<and> well_shaped (const_tensor [2, 8] 1)
   \<and> shape (const_tensor [2] 3) = [2] \<and> well_shaped (const_tensor [2] 3) \<and> (0::nat) < 2
   \<and> (\<exists>ll total rec.
           latent_loss (const_tensor [2, 8] 1) (const_tensor [2, 8] 1) = Some ll \<and> shape ll = [2]
         \<and> (\<forall>i<2. 0 \<le> data ll ! i)
         \<and> loss (const_tensor [2] 3) ll = Some total
         \<and> tf_reduce_mean (const_tensor [2] 3) = Some rec \<and> rec \<le> total)"
proof -
  have s: "shape (const_tensor [2, 8] 1) = [2, 8]" by simp
  have w: "well_shaped (const_tensor [2, 8] 1)" by simp
  have si: "shape (const_tensor [2] 3) = [2]" by simp
  have wi: "well_shaped (const_tensor [2] 3)" by simp
  have b: "(0::nat) < 2" by simp
  show ?thesis
    using s w si wi b kl_loss_nonneg [OF s s w w si wi b] by simp
qed

text \<open>
  The loss code on its own. For reconstructed images \<open>img\<close> and targets \<open>y\<close> of one
  batch size \<open>B > 0\<close>, entry \<open>i\<close> of \<^verbatim>\<open>img_loss\<close> is the sum over the pixels \<open>p\<close>
  of the squared difference of pixel \<open>p\<close> of image \<open>i\<close> and of target \<open>i\<close>, and
  \<^verbatim>\<open>loss\<close> is the sum over the batch of \<open>img_loss[i] + latent_loss[i]\<close> divided by
  \<open>B\<close>.
\<close>

lemma loss_formulas:
  assumes "shape img = B # image_shape" and "shape y = [B, image_size_flat]"
    and "well_shaped img" and "shape ll = [B]" and "0 < B"
  shows "\<exists>il. img_loss img y = Some il \<and> shape il = [B]
         \<and> data il = map (\<lambda>i. sum_range image_size_flat
                (\<lambda>p. (data img ! (i * image_size_flat + p) - at2 y i p)\<^sup>2)) [0..<B]
         \<and> loss il ll = Some (sum_range B (\<lambda>i. data il ! i + data ll ! i) / real B)"
proof -
  define il where "il = tabulate [B]
             (\<lambda>i. sum_range image_size_flat
                (\<lambda>p. (data img ! (i * image_size_flat + p) - at2 y i p)\<^sup>2))"
  have i: "img_loss img y = Some il"
    unfolding il_def by (rule img_loss_unfold [OF assms(1-3)])
  have si: "shape il = [B]" by (simp add: il_def)
  have "loss il ll = Some (sum_range B (\<lambda>i. data il ! i + data ll ! i) / real B)"
    by (rule loss_unfold [OF si assms(4,5)])
  then show ?thesis
    using i si by (simp add: il_def tabulate_def)
qed

section \<open>Shapes through the encoder and the decoder\<close>

lemma encoder_shapes:
  assumes "shape X = [B, image_size_flat]"
  shows "\<exists>z mean stddev. encoder p r X = Some (z, mean, stddev)
       \<and> shape z = [B, n_latent] \<and> shape mean = [B, n_latent] \<and> shape stddev = [B, n_latent]
       \<and> well_shaped z \<and> well_shaped mean \<and> well_shaped stddev"
proof -
  obtain F mean proj where
    m: "shape mean = [B, n_latent]" "well_shaped mean"
    and p: "shape proj = [B, n_latent]" "well_shaped proj"
    and e: "encoder p r X = Some (tabulate [B, n_latent]
                       (\<lambda>n. data mean ! n + enc_noise r n * exp (0.5 * data proj ! n)),
                     mean, scalar_mul 0.5 proj)"
    using encoder_unfold [OF assms, of p r] by blast
  show ?thesis
    using e m p by (simp add: scalar_mul_def)
qed

text \<open>
  Claim C1 says that the decoder's output has the shape of the encoder's input, a batch
  of 24 images giving an output of shape \<open>(24, 28, 28, 1)\<close>. What the code does for a fed
  batch of \<open>B\<close> images: the encoder returns \<open>z\<close>, \<open>mean\<close> and \<open>stddev\<close> of shape
  \<open>[B, 8]\<close>, as claimed; the decoder reshapes the \<open>B * 32\<close> outputs of its dense layer
  to images of \<open>16 * 16 * 1\<close> entries, so it returns \<open>B div 8\<close> images when 8 divides
  \<open>B\<close> and raises otherwise.
\<close>

theorem decoder_output_shape:
  assumes "shape X = [B, image_size_flat]"
  shows "\<exists>z mean stddev.
           encoder p r X = Some (z, mean, stddev)
         \<and> shape z = [B, n_latent] \<and> shape mean = [B, n_latent] \<and> shape stddev = [B, n_latent]
         \<and> (if 8 dvd B
            then \<exists>img. decoder q s z = Some img
                     \<and> shape img = [B div 8, image_size, image_size, image_channel]
            else decoder q s z = None)"
proof -
  obtain z mean stddev where e: "encoder p r X = Some (z, mean, stddev)"
    and sh: "shape z = [B, n_latent]" "shape mean = [B, n_latent]" "shape stddev = [B, n_latent]"
    using encoder_shapes [OF assms, of p r] by blast
  have "if 8 dvd B
        then \<exists>img. decoder q s z = Some img
                 \<and> shape img = [B div 8, image_size, image_size, image_channel]
        else decoder q s z = None"
  proof (cases "8 dvd B")
    case True
    then show ?thesis
      using decoder_shape [OF sh(1) True, of q s]
      by (auto simp: image_size_def image_channel_def)
  next
    case False
    then show ?thesis
      using decoder_fails [OF sh(1) False, of q s] by simp
  qed
  then show ?thesis
    using e sh by blast
qed

text \<open>
  Claim C1 at a batch of 24 zero images: the decoder returns 3 images, not 24.
\<close>

theorem decoder_output_shape_batch_24:
  "shape (const_tensor [24, image_size_flat] 0) = [24, image_size_flat]
   \<and> (\<exists>z mean stddev img.
           encoder (example_encoder 0 0) (example_encoder_draws True 0)
             (const_tensor [24, image_size_flat] 0) = Some (z, mean, stddev)
         \<and> shape z = [24, 8] \<and> shape mean = [24, 8] \<and> shape stddev = [24, 8]
         \<and> decoder example_decoder example_decoder_draws z = Some img
         \<and> shape img = [3, 28, 28, 1])"
proof -
  have h: "shape (const_tensor [24, image_size_flat] 0) = [24, image_size_flat]" by simp
  have d: "(8::nat) dvd 24" by simp
  show ?thesis
    using h d decoder_output_shape [OF h, of "example_encoder 0 0" "example_encoder_draws True 0"
        example_decoder example_decoder_draws]
    by (simp add: n_latent_def image_size_def image_channel_def)
qed

section \<open>The reparameterization and two calls of the encoder\<close>

lemma tabulate_const: "tabulate sh (\<lambda>n. c) = const_tensor sh c"
  by (simp add: tabulate_def const_tensor_def map_replicate_const)

lemma sum_range_const_zero [simp]: "sum_range n (\<lambda>j. 0) = 0"
  by (simp add: sum_range_def)

lemma sum_range_const: "sum_range n (\<lambda>j. c) = real n * c"
  by (simp add: sum_range_def sum_list_triv)

lemma encoder_features_noise [simp]:
  "encoder_features p (r\<lparr>enc_noise := w\<rparr>) X = encoder_features p r X"
  by (simp add: encoder_features_def)

text \<open>
  Claim C2, amended. The tensor the encoder returns third is 0.5 times the output of
  its linear projection; \<open>z\<close> is \<open>mean + noise * exp stddev\<close> entry by entry, with that
  tensor as \<open>stddev\<close>; and \<^verbatim>\<open>latent_loss\<close> is computed from the same \<open>mean\<close> and
  \<open>stddev\<close>.
\<close>

theorem encoder_reparameterization:
  assumes "shape X = [B, image_size_flat]"
  shows "\<exists>z mean stddev proj.
           encoder (enc_vars v) (enc_draws d) X = Some (z, mean, stddev)
         \<and> stddev_projection (enc_vars v) (enc_draws d) X = Some proj
         \<and> stddev = scalar_mul 0.5 proj
         \<and> shape z = [B, n_latent]
         \<and> data z = map (\<lambda>n. data mean ! n + enc_noise (enc_draws d) n * exp (data stddev ! n))
                       [0..<B * n_latent]
         \<and> run_latent_loss v d X = latent_loss mean stddev"
proof -
  obtain F mean proj where
    F: "encoder_features (enc_vars v) (enc_draws d) X = Some F"
    and p: "tf_layers_dense (enc_dense_stddev (enc_vars v)) F n_latent (\<lambda>x. x) = Some proj"
      "shape proj = [B, n_latent]" "well_shaped proj"
    and e: "encoder (enc_vars v) (enc_draws d) X = Some (tabulate [B, n_latent]
                       (\<lambda>n. data mean ! n + enc_noise (enc_draws d) n * exp (0.5 * data proj ! n)),
                     mean, scalar_mul 0.5 proj)"
    using encoder_unfold [OF assms, of "enc_vars v" "enc_draws d"] by blast
  have lp: "length (data proj) = B * n_latent"
    using p(2,3) by (simp add: well_shaped_def)
  have "map (\<lambda>n. data mean ! n + enc_noise (enc_draws d) n * exp (0.5 * data proj ! n))
          [0..<B * n_latent]
      = map (\<lambda>n. data mean ! n + enc_noise (enc_draws d) n * exp (data (scalar_mul 0.5 proj) ! n))
          [0..<B * n_latent]"
    by (rule map_cong) (simp_all add: nth_scalar_mul lp)
  then have "data (tabulate [B, n_latent]
                 (\<lambda>n. data mean ! n + enc_noise (enc_draws d) n * exp (0.5 * data proj ! n)))
      = map (\<lambda>n. data mean ! n + enc_noise (enc_draws d) n * exp (data (scalar_mul 0.5 proj) ! n))
          [0..<B * n_latent]"
    by (simp add: tabulate_def)
  moreover have "stddev_projection (enc_vars v) (enc_draws d) X = Some proj"
    using F p(1) by (simp add: stddev_projection_def)
  moreover have "run_latent_loss v d X = latent_loss mean (scalar_mul 0.5 proj)"
    using e by (simp add: run_latent_loss_def)
  ultimately show ?thesis
    using e by (intro exI conjI) simp_all
qed

text \<open>
  Claim C7, amended. Two calls of the encoder on the same batch with the same variables
  and the same dropout draws, and noise draws \<open>enc_noise r\<close> and \<open>w\<close>, return the same
  \<open>mean\<close> and \<open>stddev\<close>. The noise has one draw per entry of \<open>mean\<close>, and in each
  call \<open>z\<close> is \<open>mean + noise * exp stddev\<close> with the noise of that call, so the
  two \<open>z\<close> differ only through the noise.
\<close>

theorem encoder_two_runs:
  assumes "shape X = [B, image_size_flat]"
  shows "\<exists>z1 z2 mean stddev.
           encoder p r X = Some (z1, mean, stddev)
         \<and> encoder p (r\<lparr>enc_noise := w\<rparr>) X = Some (z2, mean, stddev)
         \<and> shape mean = [B, n_latent] \<and> shape stddev = [B, n_latent]
         \<and> shape z1 = [B, n_latent] \<and> shape z2 = [B, n_latent]
         \<and> data z1 = map (\<lambda>n. data mean ! n + enc_noise r n * exp (data stddev ! n))
                        [0..<B * n_latent]
         \<and> data z2 = map (\<lambda>n. data mean ! n + w n * exp (data stddev ! n))
                        [0..<B * n_latent]"
proof -
  obtain F mean proj where
    F: "encoder_features p r X = Some F"
    and m: "tf_layers_dense (enc_dense_mean p) F n_latent (\<lambda>x. x) = Some mean"
      "shape mean = [B, n_latent]"
    and pr: "tf_layers_dense (enc_dense_stddev p) F n_latent (\<lambda>x. x) = Some proj"
      "shape proj = [B, n_latent]" "well_shaped proj"
    and e1: "encoder p r X = Some (tabulate [B, n_latent]
                       (\<lambda>n. data mean ! n + enc_noise r n * exp (0.5 * data proj ! n)),
                     mean, scalar_mul 0.5 proj)"
    using encoder_unfold [OF assms, of p r] by blast
  obtain F' mean' proj' where
    F': "encoder_features p (r\<lparr>enc_noise := w\<rparr>) X = Some F'"
    and m': "tf_layers_dense (enc_dense_mean p) F' n_latent (\<lambda>x. x) = Some mean'"
    and pr': "tf_layers_dense (enc_dense_stddev p) F' n_latent (\<lambda>x. x) = Some proj'"
    and e2: "encoder p (r\<lparr>enc_noise := w\<rparr>) X = Some (tabulate [B, n_latent]
                       (\<lambda>n. data mean' ! n + enc_noise (r\<lparr>enc_noise := w\<rparr>) n
                              * exp (0.5 * data proj' ! n)),
                     mean', scalar_mul 0.5 proj')"
    using encoder_unfold [OF assms, of p "r\<lparr>enc_noise := w\<rparr>"] by blast
  have "F' = F" using F F' by simp
  then have same: "mean' = mean" "proj' = proj" using m(1) m' pr(1) pr' by simp_all
  have e2': "encoder p (r\<lparr>enc_noise := w\<rparr>) X = Some (tabulate [B, n_latent]
                       (\<lambda>n. data mean ! n + w n * exp (0.5 * data proj ! n)),
                     mean, scalar_mul 0.5 proj)"
    using e2 same by simp
  have lp: "length (data proj) = B * n_latent"
    using pr(2,3) by (simp add: well_shaped_def)
  have formula: "data (tabulate [B, n_latent] (\<lambda>n. data mean ! n + u n * exp (0.5 * data proj ! n)))
      = map (\<lambda>n. data mean ! n + u n * exp (data (scalar_mul 0.5 proj) ! n)) [0..<B * n_latent]"
    for u
  proof -
    have "map (\<lambda>n. data mean ! n + u n * exp (0.5 * data proj ! n)) [0..<B * n_latent]
        = map (\<lambda>n. data mean ! n + u n * exp (data (scalar_mul 0.5 proj) ! n)) [0..<B * n_latent]"
      by (rule map_cong) (simp_all add: nth_scalar_mul lp)
    then show ?thesis by (simp add: tabulate_def)
  qed
  show ?thesis
    using e1 e2' m(2) pr(2) formula [of "enc_noise r"] formula [of w]
    by (intro exI conjI) simp_all
qed

section \<open>The encoder at constant variables\<close>

lemma tf_layers_conv2d_const:
  assumes "shape X = [B, H, W, C]" and "s \<noteq> 0"
  shows "tf_layers_conv2d (const_conv 0 b) X F k s act
         = Some (const_tensor [B, same_out H s, same_out W s, F] (act b))"
  using assms
  by (simp add: tf_layers_conv2d_def Let_def const_conv_def tabulate_const cong: if_cong)

lemma tf_nn_dropout_const:
  "tf_nn_dropout (const_keep kp) (const_tensor sh c) q
   = const_tensor sh (if kp then c / q else 0)"
proof -
  have "map (\<lambda>n. replicate (prod_list sh) c ! n / q) [0..<prod_list sh]
      = map (\<lambda>n. c / q) [0..<prod_list sh]"
    by (rule map_cong) simp_all
  then show ?thesis
    by (cases kp)
      (simp_all add: tf_nn_dropout_def const_tensor_def const_keep_def map_replicate_const)
qed

lemma flatten_const:
  "flatten (const_tensor [B, H, W, C] c) = Some (const_tensor [B, H * W * C] c)"
  by (simp add: flatten_def const_tensor_def mult.assoc)

lemma example_features:
  assumes "shape X = [B, image_size_flat]"
  shows "encoder_features (example_encoder km bs) (example_encoder_draws k3 c) X
         = Some (const_tensor [B, 3136] (if k3 then 5 / 4 else 0))"
proof -
  have "prod_list (shape X) mod prod_list (map nat [int image_size, int image_size, int image_channel]) = 0"
    using assms by (simp add: image_size_flat_def)
  then have r0: "tf_reshape X [- 1, int image_size, int image_size, int image_channel]
      = Some \<lparr>shape = [B, 28, 28, 1], data = data X\<rparr>"
    using assms
    by (subst tf_reshape_leading) (simp_all add: image_size_def image_channel_def image_size_flat_def)
  define X0 where "X0 = \<lparr>shape = [B, 28, 28, 1], data = data X\<rparr>"
  have s0: "shape X0 = [B, 28, 28, 1]" by (simp add: X0_def)
  define X1 where "X1 = tf_nn_dropout (const_keep True)
      (const_tensor [B, same_out 28 2, same_out 28 2, 64] (leakyReLU 1 0.3)) keep_prob"
  have c1: "conv2d (const_conv 0 1) (const_keep True) X0 64 4 2 (\<lambda>x. leakyReLU x 0.3) True = Some X1"
    by (simp add: conv2d_def tf_layers_conv2d_const [OF s0] X1_def)
  have s1: "shape X1 = [B, 14, 14, 64]" by (simp add: X1_def same_out_def)
  define X2 where "X2 = tf_nn_dropout (const_keep True)
      (const_tensor [B, same_out 14 2, same_out 14 2, 64] (leakyReLU 1 0.3)) keep_prob"
  have c2: "conv2d (const_conv 0 1) (const_keep True) X1 64 4 2 (\<lambda>x. leakyReLU x 0.3) True = Some X2"
    by (simp add: conv2d_def tf_layers_conv2d_const [OF s1] X2_def)
  have s2: "shape X2 = [B, 7, 7, 64]" by (simp add: X2_def same_out_def)
  define X3 where "X3 = const_tensor [B, 7, 7, 64] (if k3 then 5 / 4 else (0::real))"
  have c3: "conv2d (const_conv 0 1) (const_keep k3) X2 64 4 1 (\<lambda>x. leakyReLU x 0.3) True = Some X3"
    by (simp add: conv2d_def tf_layers_conv2d_const [OF s2] X3_def tf_nn_dropout_const
        same_out_def leakyReLU_def keep_prob_def)
  have "flatten X3 = Some (const_tensor [B, 3136] (if k3 then 5 / 4 else 0))"
    unfolding X3_def by (simp add: flatten_const)
  then show ?thesis
    using r0 c1 c2 c3
    by (simp add: encoder_features_def X0_def example_encoder_def example_encoder_draws_def)
qed

lemma tf_layers_dense_const:
  "tf_layers_dense (const_dense k b) (const_tensor [B, n] c) units (\<lambda>x. x)
   = Some (const_tensor [B, units] (b + real n * (c * k)))"
proof -
  have "tabulate [B, units]
       (\<lambda>m. dense_bias (const_dense k b) (m mod units) +
          sum_range n (\<lambda>i. data (const_tensor [B, n] c) ! ((m div units) * n + i)
                            * dense_kernel (const_dense k b) i (m mod units)))
      = tabulate [B, units] (\<lambda>m. b + real n * (c * k))"
  proof (rule tabulate_cong)
    fix m assume "m < prod_list [B, units]"
    then have "m div units < B" by (simp add: less_mult_imp_div_less)
    then have "sum_range n (\<lambda>i. data (const_tensor [B, n] c) ! ((m div units) * n + i) * k)
        = sum_range n (\<lambda>i. c * k)"
      by (intro sum_range_cong) (simp add: row_index_bound)
    then show "dense_bias (const_dense k b) (m mod units) +
          sum_range n (\<lambda>i. data (const_tensor [B, n] c) ! ((m div units) * n + i)
                            * dense_kernel (const_dense k b) i (m mod units))
        = b + real n * (c * k)"
      by (simp add: const_dense_def sum_range_const)
  qed
  then show ?thesis
    by (simp add: tf_layers_dense_rank2 [of _ B n] tabulate_const)
qed

lemma example_encoder_result:
  assumes "shape X = [B, image_size_flat]"
  shows "\<exists>z. encoder (example_encoder km bs) (example_encoder_draws k3 c) X
         = Some (z, const_tensor [B, n_latent] (3136 * ((if k3 then 5 / 4 else 0) * km)),
                 const_tensor [B, n_latent] (bs / 2))
       \<and> stddev_projection (example_encoder km bs) (example_encoder_draws k3 c) X
         = Some (const_tensor [B, n_latent] bs)"
proof -
  let ?p = "example_encoder km bs" and ?r = "example_encoder_draws k3 c"
  let ?F = "const_tensor [B, 3136] (if k3 then 5 / 4 else (0::real))"
  obtain F mean proj where
    F: "encoder_features ?p ?r X = Some F"
    and m: "tf_layers_dense (enc_dense_mean ?p) F n_latent (\<lambda>x. x) = Some mean"
    and pr: "tf_layers_dense (enc_dense_stddev ?p) F n_latent (\<lambda>x. x) = Some proj"
    and e: "encoder ?p ?r X = Some (tabulate [B, n_latent]
                       (\<lambda>n. data mean ! n + enc_noise ?r n * exp (0.5 * data proj ! n)),
                     mean, scalar_mul 0.5 proj)"
    using encoder_unfold [OF assms, of ?p ?r] by blast
  have Feq: "F = ?F"
    using F example_features [OF assms, of km bs k3 c] by simp
  have "mean = const_tensor [B, n_latent] (3136 * ((if k3 then 5 / 4 else 0) * km))"
    using m unfolding Feq by (simp add: example_encoder_def tf_layers_dense_const)
  moreover have proj: "proj = const_tensor [B, n_latent] bs"
    using pr unfolding Feq by (simp add: example_encoder_def tf_layers_dense_const)
  moreover have "scalar_mul 0.5 (const_tensor [B, n_latent] bs) = const_tensor [B, n_latent] (bs / 2)"
    by (simp add: scalar_mul_def tf_map_def const_tensor_def)
  moreover have "stddev_projection ?p ?r X = Some proj"
    using F pr by (simp add: stddev_projection_def)
  ultimately show ?thesis
    using e by simp
qed

lemma encoder_features_stddev_vars [simp]:
  "encoder_features (p\<lparr>enc_dense_stddev := q\<rparr>) r X = encoder_features p r X"
  by (simp add: encoder_features_def)

lemma dropout_example_encoder_result:
  assumes "shape X = [B, image_size_flat]"
  shows "\<exists>z. encoder dropout_example_encoder (example_encoder_draws k3 c) X
         = Some (z, const_tensor [B, n_latent] (if k3 then 3920 else 0),
                 const_tensor [B, n_latent] (if k3 then 1960 else 0))"
proof -
  let ?p = "dropout_example_encoder" and ?r = "example_encoder_draws k3 c"
  let ?F = "const_tensor [B, 3136] (if k3 then 5 / 4 else (0::real))"
  obtain F mean proj where
    F: "encoder_features ?p ?r X = Some F"
    and m: "tf_layers_dense (enc_dense_mean ?p) F n_latent (\<lambda>x. x) = Some mean"
    and pr: "tf_layers_dense (enc_dense_stddev ?p) F n_latent (\<lambda>x. x) = Some proj"
    and e: "encoder ?p ?r X = Some (tabulate [B, n_latent]
                       (\<lambda>n. data mean ! n + enc_noise ?r n * exp (0.5 * data proj ! n)),
                     mean, scalar_mul 0.5 proj)"
    using encoder_unfold [OF assms, of ?p ?r] by blast
  have Feq: "F = ?F"
    using F example_features [OF assms, of 1 0 k3 c] by (simp add: dropout_example_encoder_def)
  have "mean = const_tensor [B, n_latent] (if k3 then 3920 else 0)"
    using m unfolding Feq
    by (cases k3)
      (auto simp: dropout_example_encoder_def example_encoder_def tf_layers_dense_const)
  moreover have "proj = const_tensor [B, n_latent] (if k3 then 3920 else 0)"
    using pr unfolding Feq
    by (cases k3)
      (auto simp: dropout_example_encoder_def example_encoder_def tf_layers_dense_const)
  moreover have "scalar_mul 0.5 (const_tensor [B, n_latent] (if k3 then 3920 else 0))
      = const_tensor [B, n_latent] (if k3 then 1960 else 0)"
    by (simp add: scalar_mul_def tf_map_def const_tensor_def)
  ultimately show ?thesis
    using e by simp
qed

text \<open>
  Claim C7, as stated: two calls on the same batch return the same \<open>mean\<close> and
  \<open>stddev\<close>. The encoder applies dropout in every call. With convolution kernels 0 and
  biases 1 and both projections of kernel 1 and bias 0, one zero image has \<open>mean\<close> 3920
  and \<open>stddev\<close> 1960 everywhere when the third dropout keeps every entry, and both 0
  when it drops every entry.
\<close>

theorem encoder_outputs_depend_on_dropout:
  "encoder_mean dropout_example_encoder (example_encoder_draws True 0)
       (const_tensor [1, image_size_flat] 0) = Some (const_tensor [1, n_latent] 3920)
   \<and> encoder_mean dropout_example_encoder (example_encoder_draws False 0)
       (const_tensor [1, image_size_flat] 0) = Some (const_tensor [1, n_latent] 0)
   \<and> encoder_stddev dropout_example_encoder (example_encoder_draws True 0)
       (const_tensor [1, image_size_flat] 0) = Some (const_tensor [1, n_latent] 1960)
   \<and> encoder_stddev dropout_example_encoder (example_encoder_draws False 0)
       (const_tensor [1, image_size_flat] 0) = Some (const_tensor [1, n_latent] 0)
   \<and> encoder_mean dropout_example_encoder (example_encoder_draws True 0)
       (const_tensor [1, image_size_flat] 0)
     \<noteq> encoder_mean dropout_example_encoder (example_encoder_draws False 0)
       (const_tensor [1, image_size_flat] 0)
   \<and> encoder_stddev dropout_example_encoder (example_encoder_draws True 0)
       (const_tensor [1, image_size_flat] 0)
     \<noteq> encoder_stddev dropout_example_encoder (example_encoder_draws False 0)
       (const_tensor [1, image_size_flat] 0)"
proof -
  have h: "shape (const_tensor [1, image_size_flat] 0) = [1, image_size_flat]" by simp
  obtain zt where t: "encoder dropout_example_encoder (example_encoder_draws True 0)
       (const_tensor [1, image_size_flat] 0)
     = Some (zt, const_tensor [1, n_latent] 3920, const_tensor [1, n_latent] 1960)"
    using dropout_example_encoder_result [OF h, of True 0] by auto
  obtain zf where f: "encoder dropout_example_encoder (example_encoder_draws False 0)
       (const_tensor [1, image_size_flat] 0)
     = Some (zf, const_tensor [1, n_latent] 0, const_tensor [1, n_latent] 0)"
    using dropout_example_encoder_result [OF h, of False 0] by auto
  have "const_tensor [1, n_latent] 3920 \<noteq> const_tensor [1, n_latent] 0"
    and "const_tensor [1, n_latent] 1960 \<noteq> const_tensor [1, n_latent] 0"
    by (simp_all add: const_tensor_def n_latent_def)
  then show ?thesis
    using t f by (simp add: encoder_mean_def encoder_stddev_def)
qed

text \<open>
  Claim C2, as stated: the returned \<open>stddev\<close> is the raw output of its projection.
  With a projection of kernel 0 and bias 2 the projection's output is 2 everywhere and
  the encoder returns 1 everywhere.
\<close>

theorem encoder_stddev_is_not_projection:
  "stddev_projection (example_encoder 0 2) (example_encoder_draws True 0)
       (const_tensor [1, image_size_flat] 0) = Some (const_tensor [1, n_latent] 2)
   \<and> encoder_stddev (example_encoder 0 2) (example_encoder_draws True 0)
       (const_tensor [1, image_size_flat] 0) = Some (const_tensor [1, n_latent] 1)
   \<and> encoder_stddev (example_encoder 0 2) (example_encoder_draws True 0)
       (const_tensor [1, image_size_flat] 0)
     \<noteq> stddev_projection (example_encoder 0 2) (example_encoder_draws True 0)
       (const_tensor [1, image_size_flat] 0)"
proof -
  have h: "shape (const_tensor [1, image_size_flat] 0) = [1, image_size_flat]" by simp
  have a: "stddev_projection (example_encoder 0 2) (example_encoder_draws True 0)
       (const_tensor [1, image_size_flat] 0) = Some (const_tensor [1, n_latent] 2)"
    using example_encoder_result [OF h, of 0 2 True 0] by auto
  have b: "encoder_stddev (example_encoder 0 2) (example_encoder_draws True 0)
       (const_tensor [1, image_size_flat] 0) = Some (const_tensor [1, n_latent] 1)"
    using example_encoder_result [OF h, of 0 2 True 0] by (auto simp: encoder_stddev_def)
  have "const_tensor [1, n_latent] 1 \<noteq> const_tensor [1, n_latent] 2"
    by (simp add: const_tensor_def n_latent_def)
  then show ?thesis using a b by simp
qed

text \<open>Claim C2, amended, at one zero image.\<close>

theorem encoder_reparameterization_witness:
  "shape (const_tensor [1, image_size_flat] 0) = [1, image_size_flat]
   \<and> (\<exists>z mean stddev proj.
           encoder (enc_vars (example_vars 0 2)) (enc_draws (example_draws True 0))
             (const_tensor [1, image_size_flat] 0) = Some (z, mean, stddev)
         \<and> stddev_projection (enc_vars (example_vars 0 2)) (enc_draws (example_draws True 0))
             (const_tensor [1, image_size_flat] 0) = Some proj
         \<and> stddev = scalar_mul 0.5 proj
         \<and> shape z = [1, n_latent]
         \<and> data z = map (\<lambda>n. data mean ! n
                           + enc_noise (enc_draws (example_draws True 0)) n * exp (data stddev ! n))
                       [0..<1 * n_latent]
         \<and> run_latent_loss (example_vars 0 2) (example_draws True 0)
             (const_tensor [1, image_size_flat] 0) = latent_loss mean stddev)"
proof -
  have h: "shape (const_tensor [1, image_size_flat] 0) = [1, image_size_flat]" by simp
  show ?thesis
    using h encoder_reparameterization [OF h, of "example_vars 0 2" "example_draws True 0"]
    by simp
qed

text \<open>
  Claim C7, amended, at one zero image with noise 0 in one call and 1 in the other: the
  two calls return the same \<open>mean\<close> and \<open>stddev\<close>, and their \<open>z\<close> differ.
\<close>

theorem encoder_two_runs_witness:
  "shape (const_tensor [1, image_size_flat] 0) = [1, image_size_flat]
   \<and> (\<exists>z1 z2 mean stddev.
           encoder (example_encoder 1 0) (example_encoder_draws True 0)
             (const_tensor [1, image_size_flat] 0) = Some (z1, mean, stddev)
         \<and> encoder (example_encoder 1 0)
             ((example_encoder_draws True 0)\<lparr>enc_noise := const_noise 1\<rparr>)
             (const_tensor [1, image_size_flat] 0) = Some (z2, mean, stddev)
         \<and> data z1 = map (\<lambda>n. data mean ! n + 0 * exp (data stddev ! n)) [0..<1 * n_latent]
         \<and> data z2 = map (\<lambda>n. data mean ! n + 1 * exp (data stddev ! n)) [0..<1 * n_latent]
         \<and> z1 \<noteq> z2)"
proof -
  have h: "shape (const_tensor [1, image_size_flat] 0) = [1, image_size_flat]" by simp
  obtain z1 z2 mean stddev where
    e1: "encoder (example_encoder 1 0) (example_encoder_draws True 0)
             (const_tensor [1, image_size_flat] 0) = Some (z1, mean, stddev)"
    and e2: "encoder (example_encoder 1 0)
             ((example_encoder_draws True 0)\<lparr>enc_noise := const_noise 1\<rparr>)
             (const_tensor [1, image_size_flat] 0) = Some (z2, mean, stddev)"
    and d1: "data z1 = map (\<lambda>n. data mean ! n
                 + enc_noise (example_encoder_draws True 0) n * exp (data stddev ! n))
                        [0..<1 * n_latent]"
    and d2: "data z2 = map (\<lambda>n. data mean ! n + const_noise 1 n * exp (data stddev ! n))
                        [0..<1 * n_latent]"
    using encoder_two_runs [OF h, of "example_encoder 1 0" "example_encoder_draws True 0"
        "const_noise 1"] by blast
  have d1': "data z1 = map (\<lambda>n. data mean ! n + 0 * exp (data stddev ! n)) [0..<1 * n_latent]"
    using d1 by (simp add: example_encoder_draws_def const_noise_def)
  have d2': "data z2 = map (\<lambda>n. data mean ! n + 1 * exp (data stddev ! n)) [0..<1 * n_latent]"
    using d2 by (simp add: const_noise_def)
  have "data z1 ! 0 = data mean ! 0" using d1' by (simp add: n_latent_def)
  moreover have "data z2 ! 0 = data mean ! 0 + exp (data stddev ! 0)"
    using d2' by (simp add: n_latent_def)
  moreover have "exp (data stddev ! 0) \<noteq> 0" by simp
  ultimately have "z1 \<noteq> z2" by auto
  then show ?thesis
    using h e1 e2 d1' d2' by blast
qed

section \<open>The loss in the graph, the training step and the logging statement\<close>

lemma broadcast_rows_mismatch:
  assumes "a \<noteq> b" and "a \<noteq> 1" and "b \<noteq> 1"
  shows "broadcast_shapes [a, n] [b, n] = None"
  using assms by (simp add: broadcast_shapes_def)

lemma run_img_shape:
  assumes "shape X = [B, image_size_flat]" and "8 dvd B"
  shows "\<exists>img. run_img v d X = Some img \<and> shape img = [B div 8, 28, 28, 1] \<and> well_shaped img"
proof -
  obtain z mean stddev where e: "encoder (enc_vars v) (enc_draws d) X = Some (z, mean, stddev)"
    and sz: "shape z = [B, n_latent]"
    using encoder_shapes [OF assms(1), of "enc_vars v" "enc_draws d"] by blast
  show ?thesis
    using decoder_shape [OF sz assms(2), of "dec_vars v" "dec_draws d"] e
    by (simp add: run_img_def)
qed

lemma run_img_raises:
  assumes "shape X = [B, image_size_flat]" and "\<not> 8 dvd B"
  shows "run_img v d X = None"
proof -
  obtain z mean stddev where e: "encoder (enc_vars v) (enc_draws d) X = Some (z, mean, stddev)"
    and sz: "shape z = [B, n_latent]"
    using encoder_shapes [OF assms(1), of "enc_vars v" "enc_draws d"] by blast
  show ?thesis
    using decoder_fails [OF sz assms(2), of "dec_vars v" "dec_draws d"] e
    by (simp add: run_img_def)
qed

lemma tf_reshape_img:
  assumes "shape img = [N, 28, 28, 1]"
  shows "tf_reshape img [- 1, int image_size_flat]
         = Some \<lparr>shape = [N, image_size_flat], data = data img\<rparr>"
proof -
  have "prod_list (shape img) mod prod_list (map nat [int image_size_flat]) = 0"
    by (simp add: assms image_size_flat_def image_size_def image_channel_def)
  then show ?thesis
    by (subst tf_reshape_leading)
      (simp_all add: assms image_size_flat_def image_size_def image_channel_def)
qed

lemma run_img_loss_raises:
  assumes "shape X = [B, image_size_flat]" and "shape y = [B, image_size_flat]"
    and "0 < B" and "B \<noteq> 8"
  shows "run_img_loss v d X y = None"
proof (cases "8 dvd B")
  case False
  then show ?thesis
    using run_img_raises [OF assms(1)] by (simp add: run_img_loss_def)
next
  case True
  then obtain img where i: "run_img v d X = Some img"
    and si: "shape img = [B div 8, 28, 28, 1]"
    using run_img_shape [OF assms(1), of v d] by blast
  have "B div 8 \<noteq> B" using assms(3) by simp
  moreover have "B div 8 \<noteq> 1" using True assms(4) by auto
  moreover have "B \<noteq> 1" using True by auto
  ultimately have "broadcast_shapes [B div 8, image_size_flat] [B, image_size_flat] = None"
    by (rule broadcast_rows_mismatch)
  then have "tf_squared_difference \<lparr>shape = [B div 8, image_size_flat], data = data img\<rparr> y = None"
    by (simp add: tf_squared_difference_def tf_binop_def assms(2))
  then have "img_loss img y = None"
    using tf_reshape_img [OF si] by (simp add: img_loss_def)
  then show ?thesis using i by (simp add: run_img_loss_def)
qed

text \<open>
  Claim C4 says that for every batch \<^verbatim>\<open>img_loss\<close> holds the per-example sums of
  squared pixel differences and \<^verbatim>\<open>loss\<close> the batch mean of
  \<open>img_loss + latent_loss\<close>. What the code does for a fed batch of \<open>B > 0\<close> images
  and as many targets: the decoder returns \<open>B div 8\<close> images or raises (claim C1), so
  unless \<open>B = 8\<close> the shapes of \<^verbatim>\<open>img_reshape\<close> and \<^verbatim>\<open>y\<close> do not match, and
  neither \<^verbatim>\<open>img_loss\<close> nor \<^verbatim>\<open>loss\<close> is computed.
\<close>

theorem loss_not_computed:
  assumes "shape X = [B, image_size_flat]" and "shape y = [B, image_size_flat]"
    and "0 < B" and "B \<noteq> 8"
  shows "run_img_loss v d X y = None \<and> run_loss v d X y = None"
  using run_img_loss_raises [OF assms] by (simp add: run_loss_def)

text \<open>Claim C4 at the notebook's batch size: 24 zero images fed as input and target.\<close>

theorem loss_not_computed_batch_24:
  "shape (const_tensor [24, image_size_flat] 0) = [24, image_size_flat]
   \<and> (0::nat) < 24 \<and> (24::nat) \<noteq> 8
   \<and> run_img_loss (example_vars 0 0) (example_draws True 0)
         (const_tensor [24, image_size_flat] 0) (const_tensor [24, image_size_flat] 0) = None
   \<and> run_loss (example_vars 0 0) (example_draws True 0)
         (const_tensor [24, image_size_flat] 0) (const_tensor [24, image_size_flat] 0) = None"
proof -
  have h: "shape (const_tensor [24, image_size_flat] 0) = [24, image_size_flat]" by simp
  have p: "(0::nat) < 24" by simp
  have n: "(24::nat) \<noteq> 8" by simp
  show ?thesis
    using h p n loss_not_computed [OF h h p n, of "example_vars 0 0" "example_draws True 0"]
    by simp
qed

text \<open>
  At \<open>B = 8\<close> the decoder returns one image, which broadcasts against the 8 targets:
  entry \<open>i\<close> of \<^verbatim>\<open>img_loss\<close> compares target \<open>i\<close> with that one image.
\<close>

lemma tf_binop_row_broadcast:
  assumes "shape a = [1, n]" and "shape b = [B, n]"
  shows "tf_binop f a b = Some (tabulate [B, n] (\<lambda>k. f (data a ! (k mod n)) (data b ! k)))"
proof -
  have bs: "broadcast_shapes [1, n] [B, n] = Some [B, n]"
    by (simp add: broadcast_shapes_def)
  have step: "tf_binop f a b
      = Some (tabulate [B, n] (\<lambda>k. f (bcast_at a (unravel [B, n] k)) (bcast_at b (unravel [B, n] k))))"
    unfolding tf_binop_def assms bs by simp
  have eq: "tabulate [B, n] (\<lambda>k. f (bcast_at a (unravel [B, n] k)) (bcast_at b (unravel [B, n] k)))
      = tabulate [B, n] (\<lambda>k. f (data a ! (k mod n)) (data b ! k))"
  proof (rule tabulate_cong)
    fix k assume k: "k < prod_list [B, n]"
    have "bcast_at a (unravel [B, n] k) = data a ! (k mod n)"
      by (simp add: bcast_at_def assms(1))
    moreover have "bcast_at b (unravel [B, n] k) = data b ! k"
      using bcast_at_same [of k b] k by (simp add: assms(2))
    ultimately show "f (bcast_at a (unravel [B, n] k)) (bcast_at b (unravel [B, n] k))
        = f (data a ! (k mod n)) (data b ! k)" by simp
  qed
  show ?thesis
    unfolding step eq by (rule refl)
qed

lemma img_loss_at_batch_8:
  assumes "shape X = [8, image_size_flat]" and "shape y = [8, image_size_flat]"
  shows "\<exists>img il. run_img v d X = Some img \<and> shape img = [1, 28, 28, 1]
       \<and> run_img_loss v d X y = Some il \<and> shape il = [8]
       \<and> data il = map (\<lambda>i. sum_range image_size_flat
                          (\<lambda>p. (data img ! p - at2 y i p)\<^sup>2)) [0..<8]"
proof -
  have "(8::nat) dvd 8" by simp
  then obtain img where i: "run_img v d X = Some img"
    and si: "shape img = [8 div 8, 28, 28, 1]"
    using run_img_shape [OF assms(1), of v d] by blast
  have si': "shape img = [1, 28, 28, 1]" using si by simp
  define a where "a = \<lparr>shape = [1, image_size_flat], data = data img\<rparr>"
  have r: "tf_reshape img [- 1, int image_size_flat] = Some a"
    using tf_reshape_img [OF si'] by (simp add: a_def)
  define dd where "dd = tabulate [8, image_size_flat]
      (\<lambda>k. (data a ! (k mod image_size_flat) - data y ! k)
           * (data a ! (k mod image_size_flat) - data y ! k))"
  have d: "tf_squared_difference a y = Some dd"
    unfolding tf_squared_difference_def dd_def
    by (rule tf_binop_row_broadcast) (simp_all add: a_def assms(2))
  have s: "tf_reduce_sum_axis1 dd
      = Some (tabulate [8] (\<lambda>i. sum_range image_size_flat (\<lambda>p. data dd ! (i * image_size_flat + p))))"
    by (rule tf_reduce_sum_axis1_rank2) (simp add: dd_def)
  have "tabulate [8] (\<lambda>i. sum_range image_size_flat (\<lambda>p. data dd ! (i * image_size_flat + p)))
      = tabulate [8] (\<lambda>i. sum_range image_size_flat (\<lambda>p. (data img ! p - at2 y i p)\<^sup>2))"
  proof (rule tabulate_cong)
    fix i :: nat assume "i < prod_list [8]"
    then have i8: "i < 8" by simp
    show "sum_range image_size_flat (\<lambda>p. data dd ! (i * image_size_flat + p))
        = sum_range image_size_flat (\<lambda>p. (data img ! p - at2 y i p)\<^sup>2)"
      by (rule sum_range_cong)
        (simp add: dd_def a_def row_index_bound [OF i8] at2_def assms(2) power2_eq_square)
  qed
  then have "img_loss img y
      = Some (tabulate [8] (\<lambda>i. sum_range image_size_flat (\<lambda>p. (data img ! p - at2 y i p)\<^sup>2)))"
    using r d s by (simp add: img_loss_def)
  then show ?thesis
    using i si' by (simp add: run_img_loss_def tabulate_def)
qed

lemma run_loss_raises:
  assumes "shape X = [B, image_size_flat]" and "shape y = [B, image_size_flat]"
    and "B \<noteq> 0" and "B \<noteq> 8"
  shows "run_loss v d X y = None"
proof -
  have "0 < B" using assms(3) by simp
  then have "run_img_loss v d X y = None"
    using assms by (intro run_img_loss_raises) simp_all
  then show ?thesis by (simp add: run_loss_def)
qed

lemma train_step_raises_at_batch_size:
  assumes "shape X = [batch_size, image_size_flat]"
  shows "sess_run_train_step env v d X X = Inl InvalidArgumentError"
proof -
  have "run_loss v d X X = None"
    using assms by (intro run_loss_raises [where B = batch_size]) (simp_all add: batch_size_def)
  then show ?thesis by (simp add: sess_run_train_step_def)
qed

lemma start_time_unbound: "notebook_namespace ''start_time'' = None"
  by (simp add: notebook_namespace_def notebook_names_def)

text \<open>
  Were the six arguments evaluated, \<^verbatim>\<open>format\<close> would still raise: the second field
  asks for a fixed-point rendering of \<^verbatim>\<open>_img_loss\<close>, an array.
\<close>

lemma log_format_raises:
  "py_format rd log_format [Scalar l, Array il, Array ll, Array m, Array sd, t] = Inl TypeError"
  by (simp add: log_format_def)

lemma log_statement_raises:
  assumes "namespace s ''start_time'' = None"
  shows "\<exists>e. log_statement env i batch s = Inl e"
proof (cases "sess_run_log_fetches (vars s) (draws_of env i 1) batch")
  case None
  then show ?thesis by (simp add: log_statement_def)
next
  case (Some f)
  obtain l il ll m sd where f: "f = (l, il, ll, m, sd)" by (cases f) auto
  define ns where "ns = (namespace s)
                 (''_loss'' \<mapsto> Scalar l, ''_img_loss'' \<mapsto> Array il,
                  ''_latent_loss'' \<mapsto> Array ll, ''_mean'' \<mapsto> Array m,
                  ''_stddev'' \<mapsto> Array sd)"
  have st: "lookup ns ''start_time'' = Inl (NameError ''start_time'')"
    using assms by (simp add: ns_def lookup_def)
  show ?thesis
  proof (cases "lookup_all ns [''_loss'', ''_img_loss'', ''_latent_loss'', ''_mean'', ''_stddev'']")
    case (Inl e)
    then show ?thesis
      using Some f by (simp add: log_statement_def ns_def [symmetric])
  next
    case (Inr args)
    then show ?thesis
      using Some f st by (simp add: log_statement_def ns_def [symmetric])
  qed
qed

lemma iteration_logging_raises:
  assumes "namespace s ''start_time'' = None" and "i mod log_step = 0"
  shows "\<exists>e s'. iteration env i s = (Some e, s') \<and> stdout s' = stdout s"
proof (cases "sess_run_train_step env (vars s) (draws_of env i 0) (next_batch env i) (next_batch env i)")
  case (Inl e)
  then show ?thesis by (simp add: iteration_def)
next
  case (Inr v)
  have "namespace (s\<lparr>vars := v\<rparr>) ''start_time'' = None" using assms(1) by simp
  then obtain e where "log_statement env i (next_batch env i) (s\<lparr>vars := v\<rparr>) = Inl e"
    using log_statement_raises by blast
  then show ?thesis
    using Inr assms(2) by (simp add: iteration_def)
qed

text \<open>
  Claim C6 says that every \<^verbatim>\<open>log_step\<close> iterations the loop writes one line with the
  loss, its two components and the elapsed time. What the code does: the first
  iteration, \<open>i = 0\<close>, is a logging iteration, and it raises before anything is
  written, whatever the data, the draws, the optimizer and the variables are. Either
  \<^verbatim>\<open>sess.run\<close> fails, or the arguments of \<^verbatim>\<open>format\<close> are evaluated and the name
  \<^verbatim>\<open>start_time\<close> is not assigned anywhere in the notebook (the start of training is
  stored in \<^verbatim>\<open>train_start\<close>). The loop ends there with an empty console.
\<close>

theorem training_never_logs:
  "\<exists>e s. train env v = (Some e, s) \<and> stdout s = []"
proof -
  let ?s0 = "\<lparr>vars = v,
        namespace = notebook_namespace(''train_start'' \<mapsto> Time (clock env 0)),
        stdout = []\<rparr>"
  have ns: "namespace ?s0 ''start_time'' = None"
    by (simp add: start_time_unbound)
  have z: "(0::nat) mod log_step = 0" by simp
  obtain e s' where it: "iteration env 0 ?s0 = (Some e, s')" and out: "stdout s' = stdout ?s0"
    using iteration_logging_raises [OF ns z, of env] by blast
  have "0 < iterations" by (simp add: iterations_def)
  then have "[0..<iterations] = 0 # [Suc 0..<iterations]"
    by (rule upt_conv_Cons)
  then have "train env v = (Some e, s')"
    using it by (simp add: train_def)
  then show ?thesis
    using out by simp
qed

end
